theory Spec2Isabelle
  imports Main
begin

section \<open>Python values, exceptions and the library operations the driver uses\<close>

text \<open>
  The development embeds \<^verbatim>\<open>run_benchmarks.py\<close>: the sweep driver \<^verbatim>\<open>run_benchmark\<close>, the
  report parser \<^verbatim>\<open>parse_results\<close> and the table generator \<^verbatim>\<open>generate_tables\<close>.
  Exceptions are values of the type \<open>error\<close>; a function that can raise returns a sum with
  the exception on the left.
\<close>

datatype error =
    ValueError | IndexError | TypeError | SyntaxError | AssertionError
  | StatisticsError | UnboundLocalError | ZeroDivisionError | OverflowError
  | BenchmarkNotSupportedError

text \<open>
  Python values as they occur in the parameter list and as results of
  \<^verbatim>\<open>ast.literal_eval\<close>. The type \<open>'f\<close> is the type of Python floats; it is left open
  and every floating-point operation is a field of the record \<open>pylib\<close> below.
  Bytes, sets, dictionaries and complex numbers do not occur.
\<close>

datatype 'f pyval =
    PNone | PBool bool | PInt int | PFloat 'f | PStr string
  | PList "'f pyval list" | PTuple "'f pyval list"

text \<open>
  The operations of the Python runtime and standard library on floats and literals.
  \<^item> \<open>fmt3 x\<close> is \<^verbatim>\<open>"%.3f" % x\<close>; \<open>round3 x\<close> is \<^verbatim>\<open>float("%.3f" % x)\<close>;
  \<^item> \<open>repr_float x\<close> is \<^verbatim>\<open>str(x)\<close>, which for a float is \<^verbatim>\<open>repr(x)\<close>;
    \<open>repr_str s\<close> is \<^verbatim>\<open>repr(s)\<close> of a string;
  \<^item> \<open>fsub a b\<close> is \<^verbatim>\<open>a - b\<close> and \<open>fdiv a b\<close> is \<^verbatim>\<open>a / b\<close> for a non-zero \<open>b\<close>;
    \<open>feq_int x n\<close> is \<^verbatim>\<open>x == n\<close> for an integer \<open>n\<close>;
  \<^item> \<open>fmean xs\<close> is \<^verbatim>\<open>statistics.mean(xs)\<close> of a non-empty list of floats and
    \<open>imean xs\<close> that of a non-empty list of integers, as the float that \<^verbatim>\<open>"%.3f"\<close>
    formats (the integers are assumed in the range of floats);
  \<^item> \<open>float_of_str s\<close> is \<^verbatim>\<open>float(s)\<close>, \<open>float_of_int n\<close> is \<^verbatim>\<open>float(n)\<close>;
  \<^item> \<open>literal_eval s\<close> is \<^verbatim>\<open>ast.literal_eval(s)\<close>.
\<close>

record 'f pylib =
  fmt3 :: "'f \<Rightarrow> string"
  round3 :: "'f \<Rightarrow> 'f"
  repr_float :: "'f \<Rightarrow> string"
  repr_str :: "string \<Rightarrow> string"
  fsub :: "'f \<Rightarrow> 'f \<Rightarrow> 'f"
  fdiv :: "'f \<Rightarrow> 'f \<Rightarrow> 'f"
  feq_int :: "'f \<Rightarrow> int \<Rightarrow> bool"
  fmean :: "'f list \<Rightarrow> 'f"
  imean :: "int list \<Rightarrow> 'f"
  float_of_str :: "string \<Rightarrow> error + 'f"
  float_of_int :: "int \<Rightarrow> error + 'f"
  literal_eval :: "string \<Rightarrow> error + 'f pyval"

subsection \<open>Characters and strings\<close>

definition NL :: string where
  "NL = [CHR 0x0A]"

text \<open>The ASCII characters for which \<^verbatim>\<open>str.isspace\<close> holds.\<close>

definition is_space :: "char \<Rightarrow> bool" where
  "is_space c = (c = CHR '' '' \<or> c = CHR 0x09 \<or> c = CHR 0x0A \<or> c = CHR 0x0B
      \<or> c = CHR 0x0C \<or> c = CHR 0x0D \<or> c = CHR 0x1C \<or> c = CHR 0x1D
      \<or> c = CHR 0x1E \<or> c = CHR 0x1F)"

definition py_rstrip :: "string \<Rightarrow> string" where
  "py_rstrip s = rev (dropWhile is_space (rev s))"

definition py_strip :: "string \<Rightarrow> string" where
  "py_strip s = dropWhile is_space (py_rstrip s)"

text \<open>
  \<^verbatim>\<open>s.split(" ")\<close>: every single space separates. The result is never empty, so
  the first case of the inner distinction does not arise.
\<close>

fun split_on :: "char \<Rightarrow> string \<Rightarrow> string list" where
  "split_on c [] = [[]]"
| "split_on c (x # xs) =
     (if x = c then [] # split_on c xs
      else (case split_on c xs of [] \<Rightarrow> [[x]] | t # ts \<Rightarrow> (x # t) # ts))"

text \<open>\<^verbatim>\<open>sep.join(xs)\<close>.\<close>

fun py_join :: "string \<Rightarrow> string list \<Rightarrow> string" where
  "py_join sep [] = []"
| "py_join sep [x] = x"
| "py_join sep (x # y # ys) = x @ sep @ py_join sep (y # ys)"

text \<open>
  \<^verbatim>\<open>s.split(pattern)\<close> for a non-empty pattern: the occurrences are found from left to
  right and do not overlap.
\<close>

function split_str :: "string \<Rightarrow> string \<Rightarrow> string list" where
  "split_str p [] = [[]]"
| "split_str p (x # xs) =
     (if p \<noteq> [] \<and> take (length p) (x # xs) = p
      then [] # split_str p (drop (length p - 1) xs)
      else (case split_str p xs of [] \<Rightarrow> [[x]] | t # ts \<Rightarrow> (x # t) # ts))"
  by pat_completeness auto
termination
  by (relation "measure (\<lambda>(p, s). length s)") auto

text \<open>
  Reading a text file: \<^verbatim>\<open>open(file, "r")\<close> translates \<^verbatim>\<open>\r\n\<close> and \<^verbatim>\<open>\r\<close> to
  \<^verbatim>\<open>\n\<close>, and iterating over the file yields the lines with their terminator.
\<close>

fun universal_newlines :: "string \<Rightarrow> string" where
  "universal_newlines [] = []"
| "universal_newlines [c] = (if c = CHR 0x0D then [CHR 0x0A] else [c])"
| "universal_newlines (c # d # cs) =
     (if c = CHR 0x0D
      then CHR 0x0A # (if d = CHR 0x0A then universal_newlines cs else universal_newlines (d # cs))
      else c # universal_newlines (d # cs))"

fun file_lines :: "string \<Rightarrow> string list" where
  "file_lines [] = []"
| "file_lines (c # cs) =
     (if c = CHR 0x0A then [c] # file_lines cs
      else (case file_lines cs of [] \<Rightarrow> [[c]] | l # ls \<Rightarrow> (c # l) # ls))"

definition read_lines :: "string \<Rightarrow> string list" where
  "read_lines content = file_lines (universal_newlines content)"

subsection \<open>Integers and their decimal text\<close>

definition digit_char :: "nat \<Rightarrow> char" where
  "digit_char d = ''0123456789'' ! d"

fun str_nat :: "nat \<Rightarrow> string" where
  "str_nat n = (if n < 10 then [digit_char n] else str_nat (n div 10) @ [digit_char (n mod 10)])"

declare str_nat.simps [simp del]

text \<open>\<^verbatim>\<open>str(i)\<close> of an integer.\<close>

definition str_int :: "int \<Rightarrow> string" where
  "str_int i = (if i < 0 then CHR ''-'' # str_nat (nat (- i)) else str_nat (nat i))"

definition is_digit :: "char \<Rightarrow> bool" where
  "is_digit c = (c \<in> set ''0123456789'')"

definition digit_val :: "char \<Rightarrow> nat" where
  "digit_val c = of_char c - 48"

text \<open>
  \<^verbatim>\<open>int(s)\<close> in base ten: surrounding whitespace, an optional sign, then digits, where
  single underscores may stand between two digits. Anything else is a \<open>ValueError\<close>.
\<close>

fun digits_acc :: "nat \<Rightarrow> string \<Rightarrow> nat option" where
  "digits_acc a [] = Some a"
| "digits_acc a [c] = (if is_digit c then Some (10 * a + digit_val c) else None)"
| "digits_acc a (c # d # cs) =
     (if c = CHR ''_''
      then (if is_digit d then digits_acc (10 * a + digit_val d) cs else None)
      else if is_digit c then digits_acc (10 * a + digit_val c) (d # cs) else None)"

definition parse_nat :: "string \<Rightarrow> nat option" where
  "parse_nat s = (case s of [] \<Rightarrow> None
     | c # cs \<Rightarrow> if is_digit c then digits_acc (digit_val c) cs else None)"

definition py_int :: "string \<Rightarrow> error + int" where
  "py_int s =
     (let t = py_strip s;
          neg = (t \<noteq> [] \<and> hd t = CHR ''-'');
          body = (if t \<noteq> [] \<and> (hd t = CHR ''-'' \<or> hd t = CHR ''+'') then tl t else t)
      in case parse_nat body of
           None \<Rightarrow> Inl ValueError
         | Some n \<Rightarrow> Inr (if neg then - int n else int n))"

text \<open>
  \<^verbatim>\<open>list(range(start, end, step))\<close>: the values \<open>start + k * step\<close> that lie before
  \<open>end\<close> in the direction of the step; a zero step is a \<open>ValueError\<close>.
\<close>

definition range_len :: "int \<Rightarrow> int \<Rightarrow> int \<Rightarrow> nat" where
  "range_len start stop step =
     (if step > 0 \<and> start < stop then nat ((stop - start - 1) div step + 1)
      else if step < 0 \<and> stop < start then nat ((start - stop - 1) div (- step) + 1)
      else 0)"

definition py_range :: "int \<Rightarrow> int \<Rightarrow> int \<Rightarrow> error + int list" where
  "py_range start stop step =
     (if step = 0 then Inl ValueError
      else Inr (map (\<lambda>k. start + int k * step) [0 ..< range_len start stop step]))"

subsection \<open>Text of values\<close>

text \<open>\<^verbatim>\<open>str\<close> of a list is the \<^verbatim>\<open>repr\<close> of its elements between brackets.\<close>

definition bracket_list :: "string list \<Rightarrow> string" where
  "bracket_list xs = ''['' @ py_join '', '' xs @ '']''"

definition str_int_list :: "int list \<Rightarrow> string" where
  "str_int_list xs = bracket_list (map str_int xs)"

definition str_float_list :: "'f pylib \<Rightarrow> 'f list \<Rightarrow> string" where
  "str_float_list L xs = bracket_list (map (repr_float L) xs)"

fun py_repr :: "'f pylib \<Rightarrow> 'f pyval \<Rightarrow> string" where
  "py_repr L PNone = ''None''"
| "py_repr L (PBool b) = (if b then ''True'' else ''False'')"
| "py_repr L (PInt n) = str_int n"
| "py_repr L (PFloat x) = repr_float L x"
| "py_repr L (PStr s) = repr_str L s"
| "py_repr L (PList vs) = bracket_list (map (py_repr L) vs)"
| "py_repr L (PTuple vs) =
     (case map (py_repr L) vs of
        [r] \<Rightarrow> ''('' @ r @ '',)''
      | rs \<Rightarrow> ''('' @ py_join '', '' rs @ '')'')"

text \<open>\<^verbatim>\<open>str(v)\<close>: a string is itself, every other value is its \<^verbatim>\<open>repr\<close>.\<close>

definition py_str :: "'f pylib \<Rightarrow> 'f pyval \<Rightarrow> string" where
  "py_str L v = (case v of PStr s \<Rightarrow> s | _ \<Rightarrow> py_repr L v)"

text \<open>Truth value of a Python value, as \<^verbatim>\<open>not v\<close> tests it.\<close>

definition py_truth :: "'f pylib \<Rightarrow> 'f pyval \<Rightarrow> bool" where
  "py_truth L v = (case v of
       PNone \<Rightarrow> False | PBool b \<Rightarrow> b | PInt n \<Rightarrow> n \<noteq> 0
     | PFloat x \<Rightarrow> \<not> feq_int L x 0 | PStr s \<Rightarrow> s \<noteq> []
     | PList vs \<Rightarrow> vs \<noteq> [] | PTuple vs \<Rightarrow> vs \<noteq> [])"

text \<open>\<^verbatim>\<open>b == v\<close> for a Boolean \<open>b\<close>: \<^verbatim>\<open>True\<close> is the number 1 and \<^verbatim>\<open>False\<close> is 0.\<close>

definition py_eq_bool :: "'f pylib \<Rightarrow> bool \<Rightarrow> 'f pyval \<Rightarrow> bool" where
  "py_eq_bool L b v = (case v of
       PBool c \<Rightarrow> b = c
     | PInt n \<Rightarrow> n = (if b then 1 else 0)
     | PFloat x \<Rightarrow> feq_int L x (if b then 1 else 0)
     | _ \<Rightarrow> False)"

text \<open>\<^verbatim>\<open>v[k]\<close> for an index \<open>k \<ge> 0\<close>.\<close>

definition py_getitem :: "'f pyval \<Rightarrow> nat \<Rightarrow> error + 'f pyval" where
  "py_getitem v k = (case v of
       PList vs \<Rightarrow> if k < length vs then Inr (vs ! k) else Inl IndexError
     | PTuple vs \<Rightarrow> if k < length vs then Inr (vs ! k) else Inl IndexError
     | PStr s \<Rightarrow> if k < length s then Inr (PStr [s ! k]) else Inl IndexError
     | _ \<Rightarrow> Inl TypeError)"

text \<open>\<^verbatim>\<open>float(v)\<close>.\<close>

definition py_float :: "'f pylib \<Rightarrow> 'f pyval \<Rightarrow> error + 'f" where
  "py_float L v = (case v of
       PFloat x \<Rightarrow> Inr x
     | PInt n \<Rightarrow> float_of_int L n
     | PBool b \<Rightarrow> float_of_int L (if b then 1 else 0)
     | PStr s \<Rightarrow> float_of_str L s
     | _ \<Rightarrow> Inl TypeError)"

text \<open>\<^verbatim>\<open>statistics.mean\<close> raises \<open>StatisticsError\<close> on an empty list.\<close>

definition mean_floats :: "'f pylib \<Rightarrow> 'f list \<Rightarrow> error + 'f" where
  "mean_floats L xs = (if xs = [] then Inl StatisticsError else Inr (fmean L xs))"

definition mean_ints :: "'f pylib \<Rightarrow> int list \<Rightarrow> error + 'f" where
  "mean_ints L xs = (if xs = [] then Inl StatisticsError else Inr (imean L xs))"

section \<open>The sweep driver\<close>

subsection \<open>External collaborators\<close>

text \<open>
  The statistics that an instance generator returns with an instance, \<^verbatim>\<open>stats[0]\<close> to
  \<^verbatim>\<open>stats[8]\<close>. The generators live in the module \<^verbatim>\<open>benchmarks\<close>; the shape of the
  bundle is the one the driver indexes: three sizes, then for each algorithm an antichain
  size and two pairs of a call count and the list of the times of the calls.
\<close>

record 'f statistics_bundle =
  antichain_size :: int
  nbr_losing_payoffs :: int
  nbr_realizable_payoffs :: int
  ce_antichain_size :: int
  ce_exists_calls :: "int \<times> 'f list"
  ce_dominated_calls :: "int \<times> 'f list"
  ao_antichain_size :: int
  ao_call1 :: "int \<times> 'f list"
  ao_call2 :: "int \<times> 'f list"

type_synonym ('f, 'a, 'c) generated = "'f statistics_bundle \<times> 'a \<times> int \<times> 'c"

text \<open>
  The generators, the two algorithms and the three clocks are not part of the driver. Each
  is a function on a state \<open>'w\<close> of the outside world, which it may change, so that two
  calls with the same arguments need not agree. The automaton type \<open>'a\<close> and the colour
  map type \<open>'c\<close> are opaque. The algorithms return a Boolean.
\<close>

record ('f, 'a, 'c, 'w) world_ops =
  random_automaton ::
    "'f pyval \<Rightarrow> 'f pyval \<Rightarrow> int \<Rightarrow> 'f pyval \<Rightarrow> 'f pyval \<Rightarrow> 'f pyval \<Rightarrow> string \<Rightarrow> 'w
       \<Rightarrow> ('f, 'a, 'c) generated \<times> 'w"
  intersection_example :: "int \<Rightarrow> bool \<Rightarrow> 'w \<Rightarrow> ('f, 'a, 'c) generated \<times> 'w"
  intersection_example_objective_increase :: "int \<Rightarrow> bool \<Rightarrow> 'w \<Rightarrow> ('f, 'a, 'c) generated \<times> 'w"
  counterexample_based_algorithm :: "'a \<Rightarrow> int \<Rightarrow> 'c \<Rightarrow> 'w \<Rightarrow> bool \<times> 'w"
  antichain_optimization_algorithm :: "'a \<Rightarrow> int \<Rightarrow> 'c \<Rightarrow> 'w \<Rightarrow> bool \<times> 'w"
  process_time :: "'w \<Rightarrow> 'f \<times> 'w"
  perf_counter :: "'w \<Rightarrow> 'f \<times> 'w"
  wall_time :: "'w \<Rightarrow> 'f \<times> 'w"

subsection \<open>The state of a run\<close>

text \<open>The lists that hold the data of the trials of one swept value.\<close>

record 'f accumulators =
  temp_antichain_sizes :: "int list"
  temp_nbr_payoffs_losing_player_0 :: "int list"
  temp_nbr_payoffs_realizable :: "int list"
  temp_counterexample_antichain_sizes :: "int list"
  temp_counterexample_nbr_calls :: "int list"
  temp_counterexample_nbr_calls_exists :: "int list"
  temp_counterexample_mean_time_calls_exists :: "'f list"
  temp_counterexample_nbr_calls_dominated :: "int list"
  temp_counterexample_mean_time_calls_dominated :: "'f list"
  temp_antichain_optimization_antichain_sizes :: "int list"
  temp_antichain_optimization_nbr_calls :: "int list"
  temp_antichain_optimization_nbr_calls1 :: "int list"
  temp_antichain_optimization_mean_time_calls1 :: "'f list"
  temp_antichain_optimization_nbr_calls2 :: "int list"
  temp_antichain_optimization_mean_time_calls2 :: "'f list"
  counterexample_times_process :: "'f list"
  antichain_optimization_times_process :: "'f list"
  counterexample_times_perf_counter :: "'f list"
  antichain_optimization_times_perf_counter :: "'f list"
  counterexample_times :: "'f list"
  antichain_optimization_times :: "'f list"

definition empty_accumulators :: "'f accumulators" where
  "empty_accumulators = \<lparr>
     temp_antichain_sizes = [], temp_nbr_payoffs_losing_player_0 = [],
     temp_nbr_payoffs_realizable = [], temp_counterexample_antichain_sizes = [],
     temp_counterexample_nbr_calls = [], temp_counterexample_nbr_calls_exists = [],
     temp_counterexample_mean_time_calls_exists = [],
     temp_counterexample_nbr_calls_dominated = [],
     temp_counterexample_mean_time_calls_dominated = [],
     temp_antichain_optimization_antichain_sizes = [],
     temp_antichain_optimization_nbr_calls = [], temp_antichain_optimization_nbr_calls1 = [],
     temp_antichain_optimization_mean_time_calls1 = [],
     temp_antichain_optimization_nbr_calls2 = [],
     temp_antichain_optimization_mean_time_calls2 = [],
     counterexample_times_process = [], antichain_optimization_times_process = [],
     counterexample_times_perf_counter = [], antichain_optimization_times_perf_counter = [],
     counterexample_times = [], antichain_optimization_times = [] \<rparr>"

text \<open>
  The state that \<^verbatim>\<open>run_benchmark\<close> works on: the outside world, the text printed so far,
  the content of the report file \<^verbatim>\<open>save_file\<close> (a file that does not exist yet is the
  empty text, since the file is opened for appending), the lists of the current swept
  value and the local variable \<^verbatim>\<open>nbr\<close>, which is unbound until the first instance has
  been generated. An exception is returned together with the state in which it was raised.
\<close>

record ('f, 'w) run_state =
  world :: 'w
  stdout :: string
  report :: string
  accs :: "'f accumulators"
  nbr_var :: "int option"

type_synonym ('f, 'w) outcome = "(error \<times> ('f, 'w) run_state) + ('f, 'w) run_state"

definition print :: "string \<Rightarrow> ('f, 'w) run_state \<Rightarrow> ('f, 'w) run_state" where
  "print text s = s\<lparr>stdout := stdout s @ text @ NL\<rparr>"

subsection \<open>One trial\<close>

text \<open>Lines 95 to 116: the instance of the trial and the answer expected for it.\<close>

definition generate ::
  "'f pylib \<Rightarrow> ('f, 'a, 'c, 'w) world_ops \<Rightarrow> string \<Rightarrow> 'f pyval list \<Rightarrow> int \<Rightarrow> int
     \<Rightarrow> ('f, 'w) run_state
     \<Rightarrow> (error \<times> ('f, 'w) run_state) + (('f, 'a, 'c) generated \<times> 'f pyval \<times> ('f, 'w) run_state)"
where
  "generate L W benchmark_type parameters i j s =
     (if benchmark_type = ''random'' then
        (let s1 = print (''-------------------- trying to generate the '' @ str_int j
                    @ ''th automaton with '' @ str_int i
                    @ ''functions --------------------'') s
         in if length parameters < 5 then Inl (IndexError, s1)
            else (let (inst, w) = random_automaton W (parameters ! 0) (parameters ! 1) i
                                    (parameters ! 2) (parameters ! 3) (parameters ! 4)
                                    (str_int j) (world s1)
                  in Inr (inst, parameters ! 4, s1\<lparr>world := w\<rparr>)))
      else if benchmark_type = ''intersection_vertices'' then
        (if parameters = [] then Inl (IndexError, s)
         else (let (inst, w) = intersection_example W i (\<not> py_truth L (parameters ! 0)) (world s)
               in Inr (inst, parameters ! 0, s\<lparr>world := w\<rparr>)))
      else if benchmark_type = ''intersection_objectives'' then
        (if parameters = [] then Inl (IndexError, s)
         else (let (inst, w) = intersection_example_objective_increase W i
                                 (\<not> py_truth L (parameters ! 0)) (world s)
               in Inr (inst, parameters ! 0, s\<lparr>world := w\<rparr>)))
      else Inl (BenchmarkNotSupportedError, s))"

text \<open>
  Lines 118 to 134: one entry for each of the fifteen statistics lists, in the order of the
  source; the mean of an empty list of call times raises.
\<close>

definition rounded_mean :: "'f pylib \<Rightarrow> 'f list \<Rightarrow> error + 'f" where
  "rounded_mean L ts = (case mean_floats L ts of Inl e \<Rightarrow> Inl e | Inr m \<Rightarrow> Inr (round3 L m))"

definition record_stats ::
  "'f pylib \<Rightarrow> 'f statistics_bundle \<Rightarrow> 'f accumulators \<Rightarrow> (error \<times> 'f accumulators) + 'f accumulators"
where
  "record_stats L stats a0 =
     (let a1 = a0\<lparr>temp_antichain_sizes := temp_antichain_sizes a0 @ [antichain_size stats],
                  temp_nbr_payoffs_losing_player_0 :=
                    temp_nbr_payoffs_losing_player_0 a0 @ [nbr_losing_payoffs stats],
                  temp_nbr_payoffs_realizable :=
                    temp_nbr_payoffs_realizable a0 @ [nbr_realizable_payoffs stats],
                  temp_counterexample_antichain_sizes :=
                    temp_counterexample_antichain_sizes a0 @ [ce_antichain_size stats],
                  temp_counterexample_nbr_calls_exists :=
                    temp_counterexample_nbr_calls_exists a0 @ [fst (ce_exists_calls stats)]\<rparr>
      in case rounded_mean L (snd (ce_exists_calls stats)) of Inl e \<Rightarrow> Inl (e, a1) | Inr m1 \<Rightarrow>
     (let a2 = a1\<lparr>temp_counterexample_mean_time_calls_exists :=
                    temp_counterexample_mean_time_calls_exists a1 @ [m1],
                  temp_counterexample_nbr_calls_dominated :=
                    temp_counterexample_nbr_calls_dominated a1 @ [fst (ce_dominated_calls stats)]\<rparr>
      in case rounded_mean L (snd (ce_dominated_calls stats)) of Inl e \<Rightarrow> Inl (e, a2) | Inr m2 \<Rightarrow>
     (let a3 = a2\<lparr>temp_counterexample_mean_time_calls_dominated :=
                    temp_counterexample_mean_time_calls_dominated a2 @ [m2],
                  temp_counterexample_nbr_calls :=
                    temp_counterexample_nbr_calls a2
                      @ [fst (ce_exists_calls stats) + fst (ce_dominated_calls stats)],
                  temp_antichain_optimization_antichain_sizes :=
                    temp_antichain_optimization_antichain_sizes a2 @ [ao_antichain_size stats],
                  temp_antichain_optimization_nbr_calls1 :=
                    temp_antichain_optimization_nbr_calls1 a2 @ [fst (ao_call1 stats)]\<rparr>
      in case rounded_mean L (snd (ao_call1 stats)) of Inl e \<Rightarrow> Inl (e, a3) | Inr m3 \<Rightarrow>
     (let a4 = a3\<lparr>temp_antichain_optimization_mean_time_calls1 :=
                    temp_antichain_optimization_mean_time_calls1 a3 @ [m3],
                  temp_antichain_optimization_nbr_calls2 :=
                    temp_antichain_optimization_nbr_calls2 a3 @ [fst (ao_call2 stats)]\<rparr>
      in case rounded_mean L (snd (ao_call2 stats)) of Inl e \<Rightarrow> Inl (e, a4) | Inr m4 \<Rightarrow>
       Inr (a4\<lparr>temp_antichain_optimization_mean_time_calls2 :=
                  temp_antichain_optimization_mean_time_calls2 a4 @ [m4],
                temp_antichain_optimization_nbr_calls :=
                  temp_antichain_optimization_nbr_calls a4
                    @ [fst (ao_call1 stats) + fst (ao_call2 stats)]\<rparr>)))))"

text \<open>The three clocks are read in the order process time, performance counter, wall clock.\<close>

definition read_clocks :: "('f, 'a, 'c, 'w) world_ops \<Rightarrow> 'w \<Rightarrow> ('f \<times> 'f \<times> 'f) \<times> 'w" where
  "read_clocks W w =
     (let (p, w1) = process_time W w; (c, w2) = perf_counter W w1; (t, w3) = wall_time W w2
      in ((p, c, t), w3))"

text \<open>
  An algorithm run between two readings of the clocks: the answer, the readings before
  and after, and the world afterwards.
\<close>

definition timed ::
  "('f, 'a, 'c, 'w) world_ops \<Rightarrow> ('w \<Rightarrow> bool \<times> 'w) \<Rightarrow> 'w
     \<Rightarrow> bool \<times> ('f \<times> 'f \<times> 'f) \<times> ('f \<times> 'f \<times> 'f) \<times> 'w"
where
  "timed W algorithm w =
     (let (t0, w1) = read_clocks W w; (positivity, w2) = algorithm w1;
          (t1, w3) = read_clocks W w2
      in (positivity, t0, t1, w3))"

definition elapsed :: "'f pylib \<Rightarrow> 'f \<Rightarrow> 'f \<Rightarrow> 'f" where
  "elapsed L t1 t0 = round3 L (fsub L t1 t0)"

text \<open>Lines 136 to 152: the counterexample-based algorithm, its check and its three times.\<close>

definition counterexample_step ::
  "'f pylib \<Rightarrow> ('f, 'a, 'c, 'w) world_ops \<Rightarrow> 'a \<Rightarrow> int \<Rightarrow> 'c \<Rightarrow> 'f pyval
     \<Rightarrow> ('f, 'w) run_state \<Rightarrow> ('f, 'w) outcome"
where
  "counterexample_step L W aut nbr colors gen_positivity s =
     (let s1 = print '' ----- computing counterexample algorithm time -----'' s;
          (positivity, (p0, c0, t0), (p1, c1, t1), w) =
             timed W (counterexample_based_algorithm W aut nbr colors) (world s1);
          s2 = s1\<lparr>world := w\<rparr>
      in if \<not> py_eq_bool L positivity gen_positivity then Inl (AssertionError, s2)
         else Inr (s2\<lparr>accs := (accs s2)\<lparr>
                counterexample_times_process :=
                  counterexample_times_process (accs s2) @ [elapsed L p1 p0],
                counterexample_times_perf_counter :=
                  counterexample_times_perf_counter (accs s2) @ [elapsed L c1 c0],
                counterexample_times :=
                  counterexample_times (accs s2) @ [elapsed L t1 t0]\<rparr>\<rparr>))"

text \<open>Lines 154 to 170: the same for the antichain optimization algorithm.\<close>

definition antichain_optimization_step ::
  "'f pylib \<Rightarrow> ('f, 'a, 'c, 'w) world_ops \<Rightarrow> 'a \<Rightarrow> int \<Rightarrow> 'c \<Rightarrow> 'f pyval
     \<Rightarrow> ('f, 'w) run_state \<Rightarrow> ('f, 'w) outcome"
where
  "antichain_optimization_step L W aut nbr colors gen_positivity s =
     (let s1 = print '' ----- computing antichain optimization time -----'' s;
          (positivity, (p0, c0, t0), (p1, c1, t1), w) =
             timed W (antichain_optimization_algorithm W aut nbr colors) (world s1);
          s2 = s1\<lparr>world := w\<rparr>
      in if \<not> py_eq_bool L positivity gen_positivity then Inl (AssertionError, s2)
         else Inr (s2\<lparr>accs := (accs s2)\<lparr>
                antichain_optimization_times_process :=
                  antichain_optimization_times_process (accs s2) @ [elapsed L p1 p0],
                antichain_optimization_times_perf_counter :=
                  antichain_optimization_times_perf_counter (accs s2) @ [elapsed L c1 c0],
                antichain_optimization_times :=
                  antichain_optimization_times (accs s2) @ [elapsed L t1 t0]\<rparr>\<rparr>))"

text \<open>Lines 172 to 194: the lists so far, printed after every trial.\<close>

definition progress_lines :: "'f pylib \<Rightarrow> 'f accumulators \<Rightarrow> string list" where
  "progress_lines L a =
    [''Antichain sizes '' @ str_int_list (temp_antichain_sizes a),
     ''Number of payoffs losing '' @ str_int_list (temp_nbr_payoffs_losing_player_0 a),
     ''Number of payoffs realizable '' @ str_int_list (temp_nbr_payoffs_realizable a),
     ''CE antichain sizes '' @ str_int_list (temp_counterexample_antichain_sizes a),
     ''CE exists calls '' @ str_int_list (temp_counterexample_nbr_calls_exists a),
     ''CE exists calls times ''
        @ str_float_list L (temp_counterexample_mean_time_calls_exists a),
     ''CE dominated calls '' @ str_int_list (temp_counterexample_nbr_calls_dominated a),
     ''CE dominated calls times ''
        @ str_float_list L (temp_counterexample_mean_time_calls_dominated a),
     ''CE total nbr calls '' @ str_int_list (temp_counterexample_nbr_calls a),
     ''CE times process '' @ str_float_list L (counterexample_times_process a),
     ''CE times perf '' @ str_float_list L (counterexample_times_perf_counter a),
     ''AO antichain sizes '' @ str_int_list (temp_antichain_optimization_antichain_sizes a),
     ''AO call1 calls '' @ str_int_list (temp_antichain_optimization_nbr_calls1 a),
     ''AO call1 calls times ''
        @ str_float_list L (temp_antichain_optimization_mean_time_calls1 a),
     ''AO call2 calls '' @ str_int_list (temp_antichain_optimization_nbr_calls2 a),
     ''AO call2 calls times ''
        @ str_float_list L (temp_antichain_optimization_mean_time_calls2 a),
     ''AO total nbr calls '' @ str_int_list (temp_antichain_optimization_nbr_calls a),
     ''AO times process '' @ str_float_list L (antichain_optimization_times_process a),
     ''AO times perf '' @ str_float_list L (antichain_optimization_times_perf_counter a)]"

definition print_progress :: "'f pylib \<Rightarrow> ('f, 'w) run_state \<Rightarrow> ('f, 'w) run_state" where
  "print_progress L s = fold print (progress_lines L (accs s)) s"

text \<open>The body of the loop over the trials, lines 95 to 194.\<close>

definition trial ::
  "'f pylib \<Rightarrow> ('f, 'a, 'c, 'w) world_ops \<Rightarrow> string \<Rightarrow> 'f pyval list \<Rightarrow> int \<Rightarrow> int
     \<Rightarrow> ('f, 'w) run_state \<Rightarrow> ('f, 'w) outcome"
where
  "trial L W benchmark_type parameters i j s =
     (case generate L W benchmark_type parameters i j s of
        Inl e \<Rightarrow> Inl e
      | Inr ((stats, aut, nbr, colors), gen_positivity, s1) \<Rightarrow>
     (let s2 = s1\<lparr>nbr_var := Some nbr\<rparr>
      in case record_stats L stats (accs s2) of
        Inl (e, a) \<Rightarrow> Inl (e, s2\<lparr>accs := a\<rparr>)
      | Inr a \<Rightarrow>
     (case counterexample_step L W aut nbr colors gen_positivity (s2\<lparr>accs := a\<rparr>) of
        Inl e \<Rightarrow> Inl e
      | Inr s3 \<Rightarrow>
     (case antichain_optimization_step L W aut nbr colors gen_positivity s3 of
        Inl e \<Rightarrow> Inl e
      | Inr s4 \<Rightarrow> Inr (print_progress L s4)))))"

text \<open>The loop over the trials \<^verbatim>\<open>j\<close>: it stops at the first exception.\<close>

fun run_trials ::
  "'f pylib \<Rightarrow> ('f, 'a, 'c, 'w) world_ops \<Rightarrow> string \<Rightarrow> 'f pyval list \<Rightarrow> int \<Rightarrow> int list
     \<Rightarrow> ('f, 'w) run_state \<Rightarrow> ('f, 'w) outcome"
where
  "run_trials L W benchmark_type parameters i [] s = Inr s"
| "run_trials L W benchmark_type parameters i (j # js) s =
     (case trial L W benchmark_type parameters i j s of
        Inl e \<Rightarrow> Inl e
      | Inr s1 \<Rightarrow> run_trials L W benchmark_type parameters i js s1)"

subsection \<open>The report block of a swept value\<close>

text \<open>
  Lines 196 to 261. Every element of \<open>block_writes\<close> is the argument of one
  \<^verbatim>\<open>f.write\<close>, in the order of the source; an element on the left is an exception
  raised while the argument is computed. \<open>write_all\<close> appends the texts to the file up
  to the first exception. What was written before an exception stays in the file.
\<close>

fun write_all :: "(error + string) list \<Rightarrow> string \<Rightarrow> error option \<times> string" where
  "write_all [] f = (None, f)"
| "write_all (Inl e # ws) f = (Some e, f)"
| "write_all (Inr t # ws) f = write_all ws (f @ t)"

definition piece :: "string \<Rightarrow> error + string \<Rightarrow> string \<Rightarrow> error + string" where
  "piece pre t post = (case t of Inl e \<Rightarrow> Inl e | Inr u \<Rightarrow> Inr (pre @ u @ post))"

text \<open>\<^verbatim>\<open>"%.3f" % statistics.mean(xs)\<close> for a list of floats and for a list of integers.\<close>

definition mean3_floats :: "'f pylib \<Rightarrow> 'f list \<Rightarrow> error + string" where
  "mean3_floats L xs = (case mean_floats L xs of Inl e \<Rightarrow> Inl e | Inr m \<Rightarrow> Inr (fmt3 L m))"

definition mean3_ints :: "'f pylib \<Rightarrow> int list \<Rightarrow> error + string" where
  "mean3_ints L xs = (case mean_ints L xs of Inl e \<Rightarrow> Inl e | Inr m \<Rightarrow> Inr (fmt3 L m))"

definition block_writes ::
  "'f pylib \<Rightarrow> 'f pyval list \<Rightarrow> int \<Rightarrow> 'f accumulators \<Rightarrow> int option \<Rightarrow> (error + string) list"
where
  "block_writes L parameters i a nbr =
    [Inr (''Variable value used '' @ str_int i @ NL),
     Inr (''Parameters '' @ py_repr L (PList parameters) @ NL),
     piece ''Number of objectives ''
       (case nbr of None \<Rightarrow> Inl UnboundLocalError | Some n \<Rightarrow> Inr (str_int n)) NL,
     Inr (''Antichain sizes '' @ str_int_list (temp_antichain_sizes a) @ NL),
     Inr (''Number of payoffs losing ''
            @ str_int_list (temp_nbr_payoffs_losing_player_0 a) @ NL),
     Inr (''Number of payoffs realizable ''
            @ str_int_list (temp_nbr_payoffs_realizable a) @ NL),
     Inr (''CE antichain sizes '' @ str_int_list (temp_counterexample_antichain_sizes a) @ NL),
     Inr (''CE exists calls '' @ str_int_list (temp_counterexample_nbr_calls_exists a) @ NL),
     Inr (''CE exists calls times ''
            @ str_float_list L (temp_counterexample_mean_time_calls_exists a) @ NL),
     Inr (''CE dominated calls ''
            @ str_int_list (temp_counterexample_nbr_calls_dominated a) @ NL),
     Inr (''CE dominated calls times ''
            @ str_float_list L (temp_counterexample_mean_time_calls_dominated a) @ NL),
     Inr (''CE total nbr calls '' @ str_int_list (temp_counterexample_nbr_calls a) @ NL),
     Inr (''CE times process '' @ str_float_list L (counterexample_times_process a) @ NL),
     Inr (''CE times perf '' @ str_float_list L (counterexample_times_perf_counter a) @ NL),
     Inr (''CE times '' @ str_float_list L (counterexample_times a) @ NL),
     Inr (''AO antichain sizes ''
            @ str_int_list (temp_antichain_optimization_antichain_sizes a) @ NL),
     Inr (''AO call1 calls '' @ str_int_list (temp_antichain_optimization_nbr_calls1 a) @ NL),
     Inr (''AO call1 calls times ''
            @ str_float_list L (temp_antichain_optimization_mean_time_calls1 a) @ NL),
     Inr (''AO call2 calls '' @ str_int_list (temp_antichain_optimization_nbr_calls2 a) @ NL),
     Inr (''AO call2 calls times ''
            @ str_float_list L (temp_antichain_optimization_mean_time_calls2 a) @ NL),
     Inr (''AO total nbr calls ''
            @ str_int_list (temp_antichain_optimization_nbr_calls a) @ NL),
     Inr (''AO times process ''
            @ str_float_list L (antichain_optimization_times_process a) @ NL),
     Inr (''AO times perf ''
            @ str_float_list L (antichain_optimization_times_perf_counter a) @ NL),
     Inr (''AO times '' @ str_float_list L (antichain_optimization_times a) @ NL),
     piece ''Mean running time CE '' (mean3_floats L (counterexample_times_process a)) '', '',
     piece [] (mean3_floats L (counterexample_times_perf_counter a)) '', '',
     piece [] (mean3_floats L (counterexample_times a)) NL,
     piece ''Mean running time AO ''
       (mean3_floats L (antichain_optimization_times_process a)) '', '',
     piece [] (mean3_floats L (antichain_optimization_times_perf_counter a)) '', '',
     piece [] (mean3_floats L (antichain_optimization_times a)) NL,
     piece ''Mean antichain size '' (mean3_ints L (temp_antichain_sizes a)) NL,
     piece ''Mean number losing payoffs ''
       (mean3_ints L (temp_nbr_payoffs_losing_player_0 a)) NL,
     piece ''Mean number realizable payoffs ''
       (mean3_ints L (temp_nbr_payoffs_realizable a)) NL,
     piece ''CE mean antichain size ''
       (mean3_ints L (temp_counterexample_antichain_sizes a)) NL,
     piece ''CE mean nbr exists calls ''
       (mean3_ints L (temp_counterexample_nbr_calls_exists a)) NL,
     piece ''CE mean exists time ''
       (mean3_floats L (temp_counterexample_mean_time_calls_exists a)) NL,
     piece ''CE mean nbr dominated calls ''
       (mean3_ints L (temp_counterexample_nbr_calls_dominated a)) NL,
     piece ''CE mean dominated time ''
       (mean3_floats L (temp_counterexample_mean_time_calls_dominated a)) NL,
     piece ''CE mean total nbr calls '' (mean3_ints L (temp_counterexample_nbr_calls a)) NL,
     piece ''AO mean antichain size ''
       (mean3_ints L (temp_antichain_optimization_antichain_sizes a)) NL,
     piece ''AO mean nbr call1 calls ''
       (mean3_ints L (temp_antichain_optimization_nbr_calls1 a)) NL,
     piece ''AO mean call1 time ''
       (mean3_floats L (temp_antichain_optimization_mean_time_calls1 a)) NL,
     piece ''AO mean nbr call2 calls ''
       (mean3_ints L (temp_antichain_optimization_nbr_calls2 a)) NL,
     piece ''AO mean call2 time ''
       (mean3_floats L (temp_antichain_optimization_mean_time_calls2 a)) NL,
     piece ''AO mean total nbr calls ''
       (mean3_ints L (temp_antichain_optimization_nbr_calls a)) NL,
     Inr NL,
     Inr NL,
     Inr NL]"

subsection \<open>The sweep\<close>

text \<open>
  The body of the loop over the swept values \<^verbatim>\<open>i\<close>, lines 66 to 261: fresh lists, the
  trials \<^verbatim>\<open>range(1, nbr_points + 1)\<close>, then the block.
\<close>

definition sweep_value ::
  "'f pylib \<Rightarrow> ('f, 'a, 'c, 'w) world_ops \<Rightarrow> string \<Rightarrow> 'f pyval list \<Rightarrow> int \<Rightarrow> int
     \<Rightarrow> ('f, 'w) run_state \<Rightarrow> ('f, 'w) outcome"
where
  "sweep_value L W benchmark_type parameters nbr_points i s =
     (case run_trials L W benchmark_type parameters i [1 .. nbr_points]
             (s\<lparr>accs := empty_accumulators\<rparr>) of
        Inl e \<Rightarrow> Inl e
      | Inr s1 \<Rightarrow>
          (case write_all (block_writes L parameters i (accs s1) (nbr_var s1)) (report s1) of
             (None, f) \<Rightarrow> Inr (s1\<lparr>report := f\<rparr>)
           | (Some e, f) \<Rightarrow> Inl (e, s1\<lparr>report := f\<rparr>)))"

fun sweep ::
  "'f pylib \<Rightarrow> ('f, 'a, 'c, 'w) world_ops \<Rightarrow> string \<Rightarrow> 'f pyval list \<Rightarrow> int \<Rightarrow> int list
     \<Rightarrow> ('f, 'w) run_state \<Rightarrow> ('f, 'w) outcome"
where
  "sweep L W benchmark_type parameters nbr_points [] s = Inr s"
| "sweep L W benchmark_type parameters nbr_points (i # is) s =
     (case sweep_value L W benchmark_type parameters nbr_points i s of
        Inl e \<Rightarrow> Inl e
      | Inr s1 \<Rightarrow> sweep L W benchmark_type parameters nbr_points is s1)"

definition run_benchmark ::
  "'f pylib \<Rightarrow> ('f, 'a, 'c, 'w) world_ops \<Rightarrow> string \<Rightarrow> 'f pyval list \<Rightarrow> int
     \<Rightarrow> int \<Rightarrow> int \<Rightarrow> int \<Rightarrow> ('f, 'w) run_state \<Rightarrow> ('f, 'w) outcome"
where
  "run_benchmark L W benchmark_type parameters nbr_points range_start range_end range_step s =
     (case py_range range_start range_end range_step of
        Inl e \<Rightarrow> Inl (e, s)
      | Inr values \<Rightarrow> sweep L W benchmark_type parameters nbr_points values s)"

section \<open>The report parser\<close>

text \<open>Sequencing of computations that may raise.\<close>

definition and_then :: "error + 'a \<Rightarrow> ('a \<Rightarrow> error + 'b) \<Rightarrow> error + 'b" where
  "and_then r k = (case r of Inl e \<Rightarrow> Inl e | Inr v \<Rightarrow> k v)"

fun collect :: "(error + 'a) list \<Rightarrow> error + 'a list" where
  "collect [] = Inr []"
| "collect (Inl e # rs) = Inl e"
| "collect (Inr v # rs) = (case collect rs of Inl e \<Rightarrow> Inl e | Inr vs \<Rightarrow> Inr (v # vs))"

text \<open>
  The five lists that \<^verbatim>\<open>parse_results\<close> fills: \<^verbatim>\<open>x\<close>, \<^verbatim>\<open>y_ce\<close>, \<^verbatim>\<open>y_ao\<close>,
  \<^verbatim>\<open>mean_y_ce\<close> and \<^verbatim>\<open>mean_y_ao\<close>.
\<close>

record 'f series =
  x_values :: "int list"
  y_ce :: "'f pyval list"
  y_ao :: "'f pyval list"
  mean_y_ce :: "'f list"
  mean_y_ao :: "'f list"

definition empty_series :: "'f series" where
  "empty_series = \<lparr> x_values = [], y_ce = [], y_ao = [], mean_y_ce = [], mean_y_ao = [] \<rparr>"

text \<open>
  A test \<^verbatim>\<open>line[k] == w1 and line[k+1] == w2 and ...\<close>: the words are compared from
  left to right, the comparison stops at the first difference, and reading a token that
  the line does not have raises \<open>IndexError\<close>.
\<close>

fun label_is :: "string list \<Rightarrow> nat \<Rightarrow> string list \<Rightarrow> error + bool" where
  "label_is line k [] = Inr True"
| "label_is line k (w # ws) =
     (if length line \<le> k then Inl IndexError
      else if line ! k = w then label_is line (Suc k) ws else Inr False)"

text \<open>What one round of the loop of lines 306 to 312 appends to \<^verbatim>\<open>x\<close>.\<close>

definition x_entries :: "string \<Rightarrow> int \<Rightarrow> int list" where
  "x_entries benchmark_type current_x =
     (if benchmark_type = ''intersection_vertices'' then [current_x] else [])
   @ (if benchmark_type = ''intersection_objectives'' then [2 + current_x * 2] else [])
   @ (if benchmark_type = ''random'' then [current_x] else [])"

text \<open>Lines 304 to 312.\<close>

definition variable_step :: "string \<Rightarrow> int \<Rightarrow> string list \<Rightarrow> 'f series \<Rightarrow> error + 'f series" where
  "variable_step benchmark_type nbr_points line ser =
     and_then (label_is line 0 [''Variable'', ''value'', ''used'']) (\<lambda>found.
       if \<not> found then Inr ser
       else if length line \<le> 3 then Inl IndexError
       else and_then (py_int (line ! 3)) (\<lambda>current_x.
         Inr (ser\<lparr>x_values := x_values ser
                @ concat (replicate (nat nbr_points) (x_entries benchmark_type current_x))\<rparr>)))"

text \<open>Lines 314 to 317 and 319 to 322.\<close>

definition ce_times_step :: "'f pylib \<Rightarrow> int \<Rightarrow> string list \<Rightarrow> 'f series \<Rightarrow> error + 'f series" where
  "ce_times_step L nbr_points line ser =
     and_then (label_is line 0 [''CE'', ''times'', ''process'']) (\<lambda>found.
       if \<not> found then Inr ser
       else and_then (literal_eval L (py_join '' '' (drop 3 line))) (\<lambda>current_ce_times.
         and_then (collect (map (py_getitem current_ce_times) [0 ..< nat nbr_points]))
           (\<lambda>items. Inr (ser\<lparr>y_ce := y_ce ser @ items\<rparr>))))"

definition ao_times_step :: "'f pylib \<Rightarrow> int \<Rightarrow> string list \<Rightarrow> 'f series \<Rightarrow> error + 'f series" where
  "ao_times_step L nbr_points line ser =
     and_then (label_is line 0 [''AO'', ''times'', ''process'']) (\<lambda>found.
       if \<not> found then Inr ser
       else and_then (literal_eval L (py_join '' '' (drop 3 line))) (\<lambda>current_ao_times.
         and_then (collect (map (py_getitem current_ao_times) [0 ..< nat nbr_points]))
           (\<lambda>items. Inr (ser\<lparr>y_ao := y_ao ser @ items\<rparr>))))"

text \<open>
  Lines 326 to 329 and 331 to 334: \<^verbatim>\<open>float(current_mean[0])\<close> is computed in every
  round of the loop, so not at all when \<^verbatim>\<open>nbr_points\<close> is not positive.
\<close>

definition mean_ce_step :: "'f pylib \<Rightarrow> int \<Rightarrow> string list \<Rightarrow> 'f series \<Rightarrow> error + 'f series" where
  "mean_ce_step L nbr_points line ser =
     and_then (label_is line 0 [''Mean'', ''running'', ''time'', ''CE'']) (\<lambda>found.
       if \<not> found then Inr ser
       else and_then (literal_eval L (py_join '' '' (drop 4 line))) (\<lambda>current_mean_y_ce.
         and_then (collect (replicate (nat nbr_points)
                     (and_then (py_getitem current_mean_y_ce 0) (py_float L))))
           (\<lambda>means. Inr (ser\<lparr>mean_y_ce := mean_y_ce ser @ means\<rparr>))))"

definition mean_ao_step :: "'f pylib \<Rightarrow> int \<Rightarrow> string list \<Rightarrow> 'f series \<Rightarrow> error + 'f series" where
  "mean_ao_step L nbr_points line ser =
     and_then (label_is line 0 [''Mean'', ''running'', ''time'', ''AO'']) (\<lambda>found.
       if \<not> found then Inr ser
       else and_then (literal_eval L (py_join '' '' (drop 4 line))) (\<lambda>current_mean_y_ao.
         and_then (collect (replicate (nat nbr_points)
                     (and_then (py_getitem current_mean_y_ao 0) (py_float L))))
           (\<lambda>means. Inr (ser\<lparr>mean_y_ao := mean_y_ao ser @ means\<rparr>))))"

text \<open>
  The body of the loop over the lines of the report: line 303 splits the line into its
  tokens, lines 304 to 334 work on the tokens.
\<close>

definition parse_tokens ::
  "'f pylib \<Rightarrow> string \<Rightarrow> int \<Rightarrow> string list \<Rightarrow> 'f series \<Rightarrow> error + 'f series"
where
  "parse_tokens L benchmark_type nbr_points line ser =
     and_then (variable_step benchmark_type nbr_points line ser) (\<lambda>s1.
     and_then (ce_times_step L nbr_points line s1) (\<lambda>s2.
     and_then (ao_times_step L nbr_points line s2) (\<lambda>s3.
       if benchmark_type = ''random''
       then and_then (mean_ce_step L nbr_points line s3) (mean_ao_step L nbr_points line)
       else Inr s3)))"

definition parse_line ::
  "'f pylib \<Rightarrow> string \<Rightarrow> int \<Rightarrow> string \<Rightarrow> 'f series \<Rightarrow> error + 'f series"
where
  "parse_line L benchmark_type nbr_points text ser =
     parse_tokens L benchmark_type nbr_points (split_on (CHR '' '') (py_rstrip text)) ser"

fun scan :: "'f pylib \<Rightarrow> string \<Rightarrow> int \<Rightarrow> string list \<Rightarrow> 'f series \<Rightarrow> error + 'f series" where
  "scan L benchmark_type nbr_points [] ser = Inr ser"
| "scan L benchmark_type nbr_points (text # rest) ser =
     and_then (parse_line L benchmark_type nbr_points text ser)
       (scan L benchmark_type nbr_points rest)"

text \<open>
  Lines 336 to 353: the header and one row for every entry of \<^verbatim>\<open>x\<close>; a row whose index
  is beyond the end of another list raises \<open>IndexError\<close>.
\<close>

definition row3 :: "'f pylib \<Rightarrow> 'f series \<Rightarrow> nat \<Rightarrow> error + string" where
  "row3 L ser i =
     (if length (y_ce ser) \<le> i \<or> length (y_ao ser) \<le> i then Inl IndexError
      else Inr (str_int (x_values ser ! i) @ '' '' @ py_str L (y_ce ser ! i) @ '' ''
                  @ py_str L (y_ao ser ! i) @ NL))"

definition row5 :: "'f pylib \<Rightarrow> 'f series \<Rightarrow> nat \<Rightarrow> error + string" where
  "row5 L ser i =
     (if length (y_ce ser) \<le> i \<or> length (y_ao ser) \<le> i
         \<or> length (mean_y_ce ser) \<le> i \<or> length (mean_y_ao ser) \<le> i then Inl IndexError
      else Inr (str_int (x_values ser ! i) @ '' '' @ py_str L (y_ce ser ! i) @ '' ''
                  @ py_str L (y_ao ser ! i) @ '' '' @ repr_float L (mean_y_ce ser ! i) @ '' ''
                  @ repr_float L (mean_y_ao ser ! i) @ NL))"

definition dataset_writes :: "'f pylib \<Rightarrow> string \<Rightarrow> 'f series \<Rightarrow> (error + string) list" where
  "dataset_writes L benchmark_type ser =
     (if benchmark_type = ''intersection_vertices''
      then Inr (''nbr_vertices CE_time AO_time'' @ NL)
             # map (row3 L ser) [0 ..< length (x_values ser)] else [])
   @ (if benchmark_type = ''intersection_objectives''
      then Inr (''nbr_objectives CE_time AO_time'' @ NL)
             # map (row3 L ser) [0 ..< length (x_values ser)] else [])
   @ (if benchmark_type = ''random''
      then Inr (''nbr_objectives CE_time AO_time mean_CE_time mean_AO_time'' @ NL)
             # map (row5 L ser) [0 ..< length (x_values ser)] else [])"

text \<open>
  \<^verbatim>\<open>parse_results\<close>, on the content of the report and the content that the dataset file
  has before: the new content of the dataset file, or the exception together with what
  the dataset file holds then.
\<close>

definition parse_results ::
  "'f pylib \<Rightarrow> string \<Rightarrow> string \<Rightarrow> int \<Rightarrow> string \<Rightarrow> (error \<times> string) + string"
where
  "parse_results L file_content benchmark_type nbr_points dataset =
     (case scan L benchmark_type nbr_points (read_lines file_content) empty_series of
        Inl e \<Rightarrow> Inl (e, dataset)
      | Inr ser \<Rightarrow>
          (case write_all (dataset_writes L benchmark_type ser) dataset of
             (None, d) \<Rightarrow> Inr d
           | (Some e, d) \<Rightarrow> Inl (e, d)))"

section \<open>The table generator\<close>









section \<open>A decimal instance of the library and a small world\<close>

text \<open>
  To evaluate the model on concrete runs, floats with three decimals are represented by
  their number of thousandths: \<open>1500\<close> stands for \<^verbatim>\<open>1.5\<close>.
\<close>

definition pad3 :: "nat \<Rightarrow> string" where
  "pad3 k = [digit_char (k div 100 mod 10), digit_char (k div 10 mod 10), digit_char (k mod 10)]"

definition milli_fmt3 :: "int \<Rightarrow> string" where
  "milli_fmt3 n = (if n < 0 then ''-'' else []) @ str_nat (nat \<bar>n\<bar> div 1000) @ ''.''
      @ pad3 (nat \<bar>n\<bar> mod 1000)"

definition milli_frac :: "nat \<Rightarrow> string" where
  "milli_frac r = (let frac = rev (dropWhile (\<lambda>c. c = CHR ''0'') (rev (pad3 r)))
                   in if frac = [] then ''0'' else frac)"

definition milli_repr :: "int \<Rightarrow> string" where
  "milli_repr n = (if n < 0 then ''-'' else []) @ str_nat (nat \<bar>n\<bar> div 1000) @ ''.''
      @ milli_frac (nat \<bar>n\<bar> mod 1000)"

definition milli_parse :: "string \<Rightarrow> error + int" where
  "milli_parse s =
     (let t = py_strip s;
          neg = (t \<noteq> [] \<and> hd t = CHR ''-'');
          parts = split_on (CHR ''.'') (if neg then tl t else t)
      in if length parts \<noteq> 2 \<or> length (parts ! 1) > 3 then Inl ValueError
         else (case (parse_nat (parts ! 0),
                     parse_nat (parts ! 1 @ replicate (3 - length (parts ! 1)) (CHR ''0''))) of
                 (Some a, Some b) \<Rightarrow>
                   Inr ((if neg then - 1 else 1) * (1000 * int a + int b))
               | _ \<Rightarrow> Inl ValueError))"

definition milli_literal_eval :: "string \<Rightarrow> error + int pyval" where
  "milli_literal_eval s =
     (if s \<noteq> [] \<and> hd s = CHR ''['' \<and> last s = CHR '']''
      then (case collect (map milli_parse (split_str '', '' (butlast (tl s)))) of
              Inl e \<Rightarrow> Inl SyntaxError | Inr ns \<Rightarrow> Inr (PList (map PFloat ns)))
      else (case collect (map milli_parse (split_str '', '' s)) of
              Inl e \<Rightarrow> Inl SyntaxError
            | Inr ns \<Rightarrow> Inr (if length ns = 1 then PFloat (hd ns) else PTuple (map PFloat ns))))"

definition milli_lib :: "int pylib" where
  "milli_lib = \<lparr>
     fmt3 = milli_fmt3, round3 = (\<lambda>n. n), repr_float = milli_repr,
     repr_str = (\<lambda>s. [CHR 0x27] @ s @ [CHR 0x27]),
     fsub = (\<lambda>a b. a - b), fdiv = (\<lambda>a b. (1000 * a) div b),
     feq_int = (\<lambda>a n. a = 1000 * n),
     fmean = (\<lambda>xs. sum_list xs div int (length xs)),
     imean = (\<lambda>xs. (1000 * sum_list xs) div int (length xs)),
     float_of_str = milli_parse, float_of_int = (\<lambda>n. Inr (1000 * n)),
     literal_eval = milli_literal_eval \<rparr>"

text \<open>
  A small world: its state is a clock that every reading advances, an instance is the
  pair of its expected answer and its size, and both algorithms answer what the first
  argument of \<open>toy_world\<close> computes from the instance.
\<close>

definition toy_stats :: "int \<Rightarrow> int statistics_bundle" where
  "toy_stats i = \<lparr>
     antichain_size = i, nbr_losing_payoffs = 1, nbr_realizable_payoffs = 2 * i,
     ce_antichain_size = i, ce_exists_calls = (2, [1, 3]), ce_dominated_calls = (1, [2]),
     ao_antichain_size = i, ao_call1 = (1, [4]), ao_call2 = (3, [1, 1, 4]) \<rparr>"

definition toy_world ::
  "(bool \<times> int \<Rightarrow> bool) \<Rightarrow> (bool \<times> int \<Rightarrow> bool) \<Rightarrow> (int, bool \<times> int, unit, nat) world_ops"
where
  "toy_world ce ao = \<lparr>
     random_automaton = (\<lambda>v d i pg p0 pos name w.
        ((toy_stats i, (py_truth milli_lib pos, i), i, ()), w)),
     intersection_example = (\<lambda>i negative w. ((toy_stats i, (\<not> negative, i), 2, ()), w)),
     intersection_example_objective_increase =
       (\<lambda>i negative w. ((toy_stats i, (\<not> negative, i), 2 + 2 * i, ()), w)),
     counterexample_based_algorithm = (\<lambda>aut nbr colors w. (ce aut, w + 5)),
     antichain_optimization_algorithm = (\<lambda>aut nbr colors w. (ao aut, w + 3)),
     process_time = (\<lambda>w. (int w, w + 1)),
     perf_counter = (\<lambda>w. (int w, w + 1)),
     wall_time = (\<lambda>w. (int w, w + 1)) \<rparr>"

definition initial_state :: "(int, nat) run_state" where
  "initial_state = \<lparr> world = 0, stdout = [], report = [],
     accs = empty_accumulators, nbr_var = None \<rparr>"


section \<open>Observations used in the properties\<close>

text \<open>The lengths of the twenty-one lists of a swept value: the fifteen statistics
  lists, then the six timing lists.\<close>

definition series_lengths :: "'f accumulators \<Rightarrow> nat list" where
  "series_lengths a =
    [length (temp_antichain_sizes a), length (temp_nbr_payoffs_losing_player_0 a),
     length (temp_nbr_payoffs_realizable a), length (temp_counterexample_antichain_sizes a),
     length (temp_counterexample_nbr_calls a), length (temp_counterexample_nbr_calls_exists a),
     length (temp_counterexample_mean_time_calls_exists a),
     length (temp_counterexample_nbr_calls_dominated a),
     length (temp_counterexample_mean_time_calls_dominated a),
     length (temp_antichain_optimization_antichain_sizes a),
     length (temp_antichain_optimization_nbr_calls a),
     length (temp_antichain_optimization_nbr_calls1 a),
     length (temp_antichain_optimization_mean_time_calls1 a),
     length (temp_antichain_optimization_nbr_calls2 a),
     length (temp_antichain_optimization_mean_time_calls2 a),
     length (counterexample_times_process a), length (antichain_optimization_times_process a),
     length (counterexample_times_perf_counter a),
     length (antichain_optimization_times_perf_counter a),
     length (counterexample_times a), length (antichain_optimization_times a)]"

text \<open>
  The number of blank lines at the end of a text: the lines that consist of their
  terminator only, counted from the end.
\<close>

definition blank_lines_at_end :: "string \<Rightarrow> nat" where
  "blank_lines_at_end t = length (takeWhile (\<lambda>l. l = NL) (rev (file_lines t)))"

text \<open>
  The length of the shortest of the series that a row of the dataset reads besides
  \<^verbatim>\<open>x\<close>: two series for the intersection kinds, four for the random kind.
\<close>

definition shortest_y :: "string \<Rightarrow> 'f series \<Rightarrow> nat" where
  "shortest_y benchmark_type ser =
     (if benchmark_type = ''random''
      then min (min (length (y_ce ser)) (length (y_ao ser)))
               (min (length (mean_y_ce ser)) (length (mean_y_ao ser)))
      else min (length (y_ce ser)) (length (y_ao ser)))"

text \<open>A text that holds no line terminator, and a text without any whitespace.\<close>

definition line_text :: "string \<Rightarrow> bool" where
  "line_text s = (CHR 0x0A \<notin> set s \<and> CHR 0x0D \<notin> set s)"

definition plain :: "string \<Rightarrow> bool" where
  "plain s = (s \<noteq> [] \<and> (\<forall>c \<in> set s. \<not> is_space c))"

text \<open>
  The labelled lines of a complete block, each as the pair of its label and its value;
  three blank lines follow them.
\<close>

definition block_fields ::
  "'f pylib \<Rightarrow> 'f pyval list \<Rightarrow> int \<Rightarrow> 'f accumulators \<Rightarrow> int \<Rightarrow> (string \<times> string) list"
where
  "block_fields L parameters i a n =
    [(''Variable value used'', str_int i),
     (''Parameters'', py_repr L (PList parameters)),
     (''Number of objectives'', str_int n),
     (''Antichain sizes'', str_int_list (temp_antichain_sizes a)),
     (''Number of payoffs losing'', str_int_list (temp_nbr_payoffs_losing_player_0 a)),
     (''Number of payoffs realizable'', str_int_list (temp_nbr_payoffs_realizable a)),
     (''CE antichain sizes'', str_int_list (temp_counterexample_antichain_sizes a)),
     (''CE exists calls'', str_int_list (temp_counterexample_nbr_calls_exists a)),
     (''CE exists calls times'',
        str_float_list L (temp_counterexample_mean_time_calls_exists a)),
     (''CE dominated calls'', str_int_list (temp_counterexample_nbr_calls_dominated a)),
     (''CE dominated calls times'',
        str_float_list L (temp_counterexample_mean_time_calls_dominated a)),
     (''CE total nbr calls'', str_int_list (temp_counterexample_nbr_calls a)),
     (''CE times process'', str_float_list L (counterexample_times_process a)),
     (''CE times perf'', str_float_list L (counterexample_times_perf_counter a)),
     (''CE times'', str_float_list L (counterexample_times a)),
     (''AO antichain sizes'', str_int_list (temp_antichain_optimization_antichain_sizes a)),
     (''AO call1 calls'', str_int_list (temp_antichain_optimization_nbr_calls1 a)),
     (''AO call1 calls times'',
        str_float_list L (temp_antichain_optimization_mean_time_calls1 a)),
     (''AO call2 calls'', str_int_list (temp_antichain_optimization_nbr_calls2 a)),
     (''AO call2 calls times'',
        str_float_list L (temp_antichain_optimization_mean_time_calls2 a)),
     (''AO total nbr calls'', str_int_list (temp_antichain_optimization_nbr_calls a)),
     (''AO times process'', str_float_list L (antichain_optimization_times_process a)),
     (''AO times perf'', str_float_list L (antichain_optimization_times_perf_counter a)),
     (''AO times'', str_float_list L (antichain_optimization_times a)),
     (''Mean running time CE'',
        fmt3 L (fmean L (counterexample_times_process a)) @ '', ''
        @ fmt3 L (fmean L (counterexample_times_perf_counter a)) @ '', ''
        @ fmt3 L (fmean L (counterexample_times a))),
     (''Mean running time AO'',
        fmt3 L (fmean L (antichain_optimization_times_process a)) @ '', ''
        @ fmt3 L (fmean L (antichain_optimization_times_perf_counter a)) @ '', ''
        @ fmt3 L (fmean L (antichain_optimization_times a))),
     (''Mean antichain size'', fmt3 L (imean L (temp_antichain_sizes a))),
     (''Mean number losing payoffs'', fmt3 L (imean L (temp_nbr_payoffs_losing_player_0 a))),
     (''Mean number realizable payoffs'', fmt3 L (imean L (temp_nbr_payoffs_realizable a))),
     (''CE mean antichain size'',
        fmt3 L (imean L (temp_counterexample_antichain_sizes a))),
     (''CE mean nbr exists calls'',
        fmt3 L (imean L (temp_counterexample_nbr_calls_exists a))),
     (''CE mean exists time'',
        fmt3 L (fmean L (temp_counterexample_mean_time_calls_exists a))),
     (''CE mean nbr dominated calls'',
        fmt3 L (imean L (temp_counterexample_nbr_calls_dominated a))),
     (''CE mean dominated time'',
        fmt3 L (fmean L (temp_counterexample_mean_time_calls_dominated a))),
     (''CE mean total nbr calls'', fmt3 L (imean L (temp_counterexample_nbr_calls a))),
     (''AO mean antichain size'',
        fmt3 L (imean L (temp_antichain_optimization_antichain_sizes a))),
     (''AO mean nbr call1 calls'',
        fmt3 L (imean L (temp_antichain_optimization_nbr_calls1 a))),
     (''AO mean call1 time'',
        fmt3 L (fmean L (temp_antichain_optimization_mean_time_calls1 a))),
     (''AO mean nbr call2 calls'',
        fmt3 L (imean L (temp_antichain_optimization_nbr_calls2 a))),
     (''AO mean call2 time'',
        fmt3 L (fmean L (temp_antichain_optimization_mean_time_calls2 a))),
     (''AO mean total nbr calls'',
        fmt3 L (imean L (temp_antichain_optimization_nbr_calls a)))]"

definition labelled :: "string \<times> string \<Rightarrow> string" where
  "labelled field = fst field @ '' '' @ snd field @ NL"

section \<open>Properties of the sweep driver\<close>

subsection \<open>Unsupported sweep kinds\<close>

lemma upto_1_Cons: "1 \<le> n \<Longrightarrow> [1 .. n] = 1 # [2 .. n]"
  by (simp add: upto_rec1)

lemma generate_unsupported:
  "benchmark_type \<noteq> ''random'' \<Longrightarrow> benchmark_type \<noteq> ''intersection_vertices'' \<Longrightarrow>
   benchmark_type \<noteq> ''intersection_objectives'' \<Longrightarrow>
   generate L W benchmark_type parameters i j s = Inl (BenchmarkNotSupportedError, s)"
  by (simp add: generate_def)

text \<open>
  C4, as the code has it. The kind is looked at inside the loop over the trials, when the
  first instance is asked for. So an unsupported kind raises
  \<open>BenchmarkNotSupportedError\<close> at the first trial of the first swept value, provided
  the range is not empty and there is at least one trial: no generator, algorithm or clock
  has been called, nothing has been printed and the report file is untouched. With an
  empty range the loop body never runs and \<^verbatim>\<open>run_benchmark\<close> returns normally.
\<close>

theorem unsupported_kind_raises_at_first_trial:
  assumes "benchmark_type \<noteq> ''random''" and "benchmark_type \<noteq> ''intersection_vertices''"
      and "benchmark_type \<noteq> ''intersection_objectives''"
  shows "(py_range range_start range_end range_step = Inr (i # rest) \<and> 1 \<le> nbr_points \<longrightarrow>
            run_benchmark L W benchmark_type parameters nbr_points
                range_start range_end range_step s
              = Inl (BenchmarkNotSupportedError, s\<lparr>accs := empty_accumulators\<rparr>))
       \<and> (py_range range_start range_end range_step = Inr [] \<longrightarrow>
            run_benchmark L W benchmark_type parameters nbr_points
                range_start range_end range_step s
              = Inr s)"
  using assms
  by (auto simp add: run_benchmark_def sweep_value_def trial_def generate_unsupported upto_1_Cons)

lemma py_range_3_1: "py_range 3 1 (- 1) = Inr [3, 2]"
  by (simp add: py_range_def range_len_def upt_rec)

lemma py_range_3_3: "py_range 3 3 (- 1) = Inr []"
  by (simp add: py_range_def range_len_def)

theorem unsupported_kind_raises_at_first_trial_witness:
  "run_benchmark milli_lib (toy_world fst fst) ''unknown'' [PBool True] 1 3 1 (- 1) initial_state
     = Inl (BenchmarkNotSupportedError, initial_state)"
  using unsupported_kind_raises_at_first_trial [of "''unknown''" 3 1 "- 1" 3 "[2]" 1
     milli_lib "toy_world fst fst" "[PBool True]" initial_state]
  by (simp add: py_range_3_1 initial_state_def)

text \<open>
  The claim as stated asks for the error also when the range is empty. For the range
  \<^verbatim>\<open>range(3, 3, -1)\<close> the run with an unsupported kind ends without any error.
\<close>

theorem unsupported_kind_empty_range_counterexample:
  "run_benchmark milli_lib (toy_world fst fst) ''unknown'' [PBool True] 1 3 3 (- 1) initial_state
     = Inr initial_state"
  by (simp add: run_benchmark_def py_range_3_3)

subsection \<open>The lists grow by one entry per trial\<close>

lemma accs_print [simp]: "accs (print t s) = accs s"
  and world_print [simp]: "world (print t s) = world s"
  and report_print [simp]: "report (print t s) = report s"
  and nbr_var_print [simp]: "nbr_var (print t s) = nbr_var s"
  by (simp_all add: print_def)

lemma fold_print_fields [simp]:
  "accs (fold print ts s) = accs s" "world (fold print ts s) = world s"
  "report (fold print ts s) = report s" "nbr_var (fold print ts s) = nbr_var s"
  by (induction ts arbitrary: s) simp_all

lemma print_progress_fields [simp]:
  "accs (print_progress L s) = accs s" "world (print_progress L s) = world s"
  "report (print_progress L s) = report s" "nbr_var (print_progress L s) = nbr_var s"
  by (simp_all add: print_progress_def)

lemma length_series_lengths [simp]: "length (series_lengths a) = 21"
  by (simp add: series_lengths_def)

lemma record_stats_lengths:
  assumes "record_stats L stats a = Inr a'"
  shows "series_lengths a' =
     (map Suc (take 15 (series_lengths a))) @ drop 15 (series_lengths a)"
  using assms
  by (auto simp: record_stats_def series_lengths_def Let_def split: sum.splits)

lemma counterexample_step_lengths:
  assumes "counterexample_step L W aut nbr colors gp s = Inr s'"
  shows "series_lengths (accs s') = (series_lengths (accs s))
      [15 := Suc (series_lengths (accs s) ! 15), 17 := Suc (series_lengths (accs s) ! 17),
       19 := Suc (series_lengths (accs s) ! 19)]"
  using assms
  by (auto simp: counterexample_step_def series_lengths_def Let_def
           split: prod.splits if_splits)

lemma antichain_optimization_step_lengths:
  assumes "antichain_optimization_step L W aut nbr colors gp s = Inr s'"
  shows "series_lengths (accs s') = (series_lengths (accs s))
      [16 := Suc (series_lengths (accs s) ! 16), 18 := Suc (series_lengths (accs s) ! 18),
       20 := Suc (series_lengths (accs s) ! 20)]"
  using assms
  by (auto simp: antichain_optimization_step_def series_lengths_def Let_def
           split: prod.splits if_splits)

lemma generate_keeps:
  "generate L W bt ps i j s = Inr (inst, gp, s1) \<Longrightarrow> accs s1 = accs s \<and> report s1 = report s"
  by (auto simp: generate_def Let_def split: if_splits prod.splits)

lemma trial_lengths:
  assumes "trial L W bt ps i j s = Inr s'"
  shows "series_lengths (accs s') = map Suc (series_lengths (accs s))"
proof -
  from assms obtain stats aut nbr colors gp s1 a s3 s4 where
    g: "generate L W bt ps i j s = Inr ((stats, aut, nbr, colors), gp, s1)"
    and r: "record_stats L stats (accs s1) = Inr a"
    and c: "counterexample_step L W aut nbr colors gp (s1\<lparr>nbr_var := Some nbr, accs := a\<rparr>)
              = Inr s3"
    and o: "antichain_optimization_step L W aut nbr colors gp s3 = Inr s4"
    and e: "s' = print_progress L s4"
    by (auto simp: trial_def Let_def split: sum.splits prod.splits)
  have 1: "series_lengths a
      = map Suc (take 15 (series_lengths (accs s))) @ drop 15 (series_lengths (accs s))"
    using record_stats_lengths [OF r] generate_keeps [OF g] by simp
  have 2: "series_lengths (accs s3) = (series_lengths a)
      [15 := Suc (series_lengths a ! 15), 17 := Suc (series_lengths a ! 17),
       19 := Suc (series_lengths a ! 19)]"
    using counterexample_step_lengths [OF c] by simp
  note 3 = antichain_optimization_step_lengths [OF o]
  show ?thesis
    unfolding e print_progress_fields 3 2 1
    by (simp add: series_lengths_def)
qed

lemma trial_report: "trial L W bt ps i j s = Inr s' \<Longrightarrow> report s' = report s"
  by (auto simp: trial_def Let_def counterexample_step_def antichain_optimization_step_def
      split: sum.splits prod.splits if_splits dest!: generate_keeps)

lemma run_trials_lengths:
  "run_trials L W bt ps i js s = Inr s' \<Longrightarrow>
     series_lengths (accs s') = map (\<lambda>n. n + length js) (series_lengths (accs s))
     \<and> report s' = report s"
proof (induction js arbitrary: s)
  case Nil
  then show ?case by simp
next
  case (Cons j js)
  then obtain s1 where t: "trial L W bt ps i j s = Inr s1"
    and r: "run_trials L W bt ps i js s1 = Inr s'"
    by (auto split: sum.splits)
  show ?case
    using Cons.IH [OF r] trial_lengths [OF t] trial_report [OF t] by (simp add: comp_def)
qed

lemma series_lengths_empty: "series_lengths empty_accumulators = replicate 21 0"
  by (simp add: series_lengths_def empty_accumulators_def numeral_eq_Suc)

text \<open>
  C2. When the body of the loop over the swept values completes for a value, the trials
  \<^verbatim>\<open>range(1, nbr_points + 1)\<close> have run from fresh lists, each of the twenty-one
  lists of statistics and times holds exactly \<open>nbr_points\<close> entries, and it is from these
  lists that the block appended to the report has been computed.
\<close>

theorem every_series_has_N_entries:
  assumes "sweep_value L W benchmark_type parameters nbr_points i s = Inr s2"
  shows "\<exists>s1. run_trials L W benchmark_type parameters i [1 .. nbr_points]
                 (s\<lparr>accs := empty_accumulators\<rparr>) = Inr s1
            \<and> series_lengths (accs s1) = replicate 21 (nat nbr_points)
            \<and> write_all (block_writes L parameters i (accs s1) (nbr_var s1)) (report s)
                = (None, report s2)"
proof -
  from assms obtain s1 where
    r: "run_trials L W benchmark_type parameters i [1 .. nbr_points]
          (s\<lparr>accs := empty_accumulators\<rparr>) = Inr s1"
    and w: "write_all (block_writes L parameters i (accs s1) (nbr_var s1)) (report s1)
          = (None, report s2)"
    by (auto simp: sweep_value_def split: sum.splits prod.splits option.splits)
  from run_trials_lengths [OF r]
  have "series_lengths (accs s1) = replicate 21 (nat nbr_points)" and "report s1 = report s"
    by (simp_all add: series_lengths_empty numeral_eq_Suc)
  with r w show ?thesis by auto
qed

subsection \<open>The check of each answer against the expected one\<close>

text \<open>
  C1. Take a trial whose instance has been generated and whose statistics have been
  recorded, and name the answers of the two algorithms and the worlds they leave. The
  counterexample-based algorithm runs first. If its answer differs from the expected
  one, the loop over the trials ends with \<open>AssertionError\<close> in the world that this
  algorithm left, so the second algorithm and the next trial are never started, and no
  time of this algorithm has been appended. If the first answer agrees and the second
  differs, the loop ends with \<open>AssertionError\<close> in the world the second algorithm
  left, with the three times of the first algorithm appended and none of the second. If
  both agree the trial completes with all six times appended and the loop goes on with the
  next trial. (Assertions are taken as enabled, as they are unless Python runs with
  \<^verbatim>\<open>-O\<close>.)
\<close>

theorem consistency_check:
  assumes g: "generate L W benchmark_type parameters i j s
                = Inr ((stats, aut, nbr, colors), gen_positivity, s1)"
      and r: "record_stats L stats (accs s1) = Inr a"
      and ce: "timed W (counterexample_based_algorithm W aut nbr colors) (world s1)
                = (ce_answer, t0, t1, w1)"
      and ao: "timed W (antichain_optimization_algorithm W aut nbr colors) w1
                = (ao_answer, u0, u1, w2)"
      and a_ce: "a_ce = a\<lparr>
          counterexample_times_process :=
            counterexample_times_process a @ [elapsed L (fst t1) (fst t0)],
          counterexample_times_perf_counter :=
            counterexample_times_perf_counter a @ [elapsed L (fst (snd t1)) (fst (snd t0))],
          counterexample_times :=
            counterexample_times a @ [elapsed L (snd (snd t1)) (snd (snd t0))]\<rparr>"
      and a_ao: "a_ao = a_ce\<lparr>
          antichain_optimization_times_process :=
            antichain_optimization_times_process a_ce @ [elapsed L (fst u1) (fst u0)],
          antichain_optimization_times_perf_counter :=
            antichain_optimization_times_perf_counter a_ce
              @ [elapsed L (fst (snd u1)) (fst (snd u0))],
          antichain_optimization_times :=
            antichain_optimization_times a_ce @ [elapsed L (snd (snd u1)) (snd (snd u0))]\<rparr>"
  shows "(\<not> py_eq_bool L ce_answer gen_positivity \<longrightarrow>
           (\<exists>s'. run_trials L W benchmark_type parameters i (j # js) s = Inl (AssertionError, s')
                \<and> world s' = w1 \<and> accs s' = a))
       \<and> (py_eq_bool L ce_answer gen_positivity \<and> \<not> py_eq_bool L ao_answer gen_positivity \<longrightarrow>
           (\<exists>s'. run_trials L W benchmark_type parameters i (j # js) s = Inl (AssertionError, s')
                \<and> world s' = w2 \<and> accs s' = a_ce))
       \<and> (py_eq_bool L ce_answer gen_positivity \<and> py_eq_bool L ao_answer gen_positivity \<longrightarrow>
           (\<exists>s'. trial L W benchmark_type parameters i j s = Inr s'
                \<and> world s' = w2 \<and> accs s' = a_ao
                \<and> run_trials L W benchmark_type parameters i (j # js) s
                    = run_trials L W benchmark_type parameters i js s'))"
  using g r ce ao
  by (auto simp: trial_def counterexample_step_def antichain_optimization_step_def Let_def
                 a_ce a_ao
           split: prod.splits)

lemma toy_generate_vertices:
  "generate milli_lib (toy_world ce ao) ''intersection_vertices'' [PBool True] i j s
     = Inr ((toy_stats i, (True, i), 2, ()), PBool True, s)"
  by (simp add: generate_def toy_world_def py_truth_def)

lemma toy_timed_ce:
  "timed (toy_world ce ao) (counterexample_based_algorithm (toy_world ce ao) aut nbr colors) w
     = (ce aut, (int w, int w + 1, int w + 2), (int w + 8, int w + 9, int w + 10), w + 11)"
  by (simp add: timed_def read_clocks_def toy_world_def)

lemma toy_timed_ao:
  "timed (toy_world ce ao) (antichain_optimization_algorithm (toy_world ce ao) aut nbr colors) w
     = (ao aut, (int w, int w + 1, int w + 2), (int w + 6, int w + 7, int w + 8), w + 9)"
  by (simp add: timed_def read_clocks_def toy_world_def)

lemma toy_record_stats: "\<exists>a. record_stats milli_lib (toy_stats i) a0 = Inr a"
  by (simp add: record_stats_def rounded_mean_def mean_floats_def toy_stats_def Let_def)

theorem consistency_check_witness:
  "\<exists>s'. run_trials milli_lib (toy_world fst (\<lambda>aut. \<not> fst aut)) ''intersection_vertices''
           [PBool True] 3 [1, 2] initial_state = Inl (AssertionError, s')
       \<and> world s' = 20"
proof -
  obtain a where r: "record_stats milli_lib (toy_stats 3) (accs initial_state) = Inr a"
    using toy_record_stats by blast
  have w0: "world initial_state = 0"
    by (simp add: initial_state_def)
  show ?thesis
    using consistency_check [OF toy_generate_vertices r, of "fst" "\<lambda>aut. \<not> fst aut"
        _ _ _ _ _ _ _ _ _ _ 1 "[2]", unfolded w0, OF toy_timed_ce toy_timed_ao refl refl]
    by (auto simp add: py_eq_bool_def simp del: run_trials.simps)
qed

subsection \<open>The text of a block\<close>

lemma write_all_ok:
  "\<forall>w \<in> set ws. \<not> isl w \<Longrightarrow> write_all ws f = (None, f @ concat (map projr ws))"
proof (induction ws arbitrary: f)
  case Nil
  then show ?case by simp
next
  case (Cons w ws)
  then show ?case by (cases w) simp_all
qed

lemma write_all_None:
  "write_all ws f = (None, f') \<Longrightarrow> (\<forall>w \<in> set ws. \<not> isl w) \<and> f' = f @ concat (map projr ws)"
proof (induction ws arbitrary: f)
  case Nil
  then show ?case by simp
next
  case (Cons w ws)
  show ?case
  proof (cases w)
    case (Inl e)
    with Cons.prems show ?thesis by simp
  next
    case (Inr b)
    with Cons.prems have "write_all ws (f @ b) = (None, f')" by simp
    from Cons.IH [OF this] Inr show ?thesis by simp
  qed
qed

lemma piece_Inr [simp]: "piece pre (Inr t) post = Inr (pre @ t @ post)"
  by (simp add: piece_def)

lemma isl_piece [simp]: "isl (piece pre t post) = isl t"
  by (cases t) (simp_all add: piece_def)

lemma mean3_floats_ok [simp]: "xs \<noteq> [] \<Longrightarrow> mean3_floats L xs = Inr (fmt3 L (fmean L xs))"
  by (simp add: mean3_floats_def mean_floats_def)

lemma mean3_ints_ok [simp]: "xs \<noteq> [] \<Longrightarrow> mean3_ints L xs = Inr (fmt3 L (imean L xs))"
  by (simp add: mean3_ints_def mean_ints_def)

lemma isl_mean3_floats [simp]: "isl (mean3_floats L xs) = (xs = [])"
  by (simp add: mean3_floats_def mean_floats_def)

lemma isl_mean3_ints [simp]: "isl (mean3_ints L xs) = (xs = [])"
  by (simp add: mean3_ints_def mean_ints_def)

lemma block_writes_last:
  "block_writes L ps i a nbr = take 44 (block_writes L ps i a nbr)
     @ [piece ''AO mean total nbr calls ''
          (mean3_ints L (temp_antichain_optimization_nbr_calls a)) NL, Inr NL, Inr NL, Inr NL]"
  by (simp add: block_writes_def)

lemma file_lines_line:
  "CHR 0x0A \<notin> set l \<Longrightarrow> file_lines (l @ CHR 0x0A # rest) = (l @ [CHR 0x0A]) # file_lines rest"
  by (induction l) auto

lemma file_lines_eq_Nil [simp]: "file_lines t = [] \<longleftrightarrow> t = []"
  by (cases t) (auto split: list.splits)

lemma file_lines_append:
  "a = [] \<or> last a = CHR 0x0A \<Longrightarrow> file_lines (a @ b) = file_lines a @ file_lines b"
proof (induction a)
  case Nil
  then show ?case by simp
next
  case (Cons c a)
  show ?case
  proof (cases "a = []")
    case True
    with Cons.prems show ?thesis by simp
  next
    case False
    with Cons.prems have "last a = CHR 0x0A" by simp
    with Cons.IH have ih: "file_lines (a @ b) = file_lines a @ file_lines b" by simp
    from False have "file_lines a \<noteq> []" by simp
    then show ?thesis
      using ih by (auto split: list.splits)
  qed
qed

lemma blank_lines_after_text:
  assumes "t \<noteq> []" and "last t \<noteq> CHR 0x0A"
  shows "blank_lines_at_end (t @ NL @ NL @ NL @ NL) = 3"
proof -
  define a where "a = rev (dropWhile (\<lambda>c. c \<noteq> CHR 0x0A) (rev t))"
  define l where "l = rev (takeWhile (\<lambda>c. c \<noteq> CHR 0x0A) (rev t))"
  have t: "t = a @ l"
  proof -
    have "rev t = takeWhile (\<lambda>c. c \<noteq> CHR 0x0A) (rev t) @ dropWhile (\<lambda>c. c \<noteq> CHR 0x0A) (rev t)"
      by simp
    then have "rev (rev t) = rev (takeWhile (\<lambda>c. c \<noteq> CHR 0x0A) (rev t) @ dropWhile (\<lambda>c. c \<noteq> CHR 0x0A) (rev t))"
      by (rule arg_cong)
    then show ?thesis
      by (simp add: a_def l_def del: takeWhile_dropWhile_id)
  qed
  have l: "CHR 0x0A \<notin> set l"
    unfolding l_def by (auto dest: set_takeWhileD)
  have a: "a = [] \<or> last a = CHR 0x0A"
  proof (cases "dropWhile (\<lambda>c. c \<noteq> CHR 0x0A) (rev t) = []")
    case True
    then show ?thesis by (simp add: a_def)
  next
    case False
    from hd_dropWhile [OF False] have "hd (dropWhile (\<lambda>c. c \<noteq> CHR 0x0A) (rev t)) = CHR 0x0A"
      by simp
    with False show ?thesis
      by (simp add: a_def last_rev)
  qed
  have "l \<noteq> []"
    using assms a t by (cases "l = []") auto
  have "file_lines (t @ NL @ NL @ NL @ NL)
      = file_lines a @ file_lines (l @ CHR 0x0A # NL @ NL @ NL)"
    unfolding t using file_lines_append [OF a] by (simp add: NL_def)
  also have "\<dots> = file_lines a @ [l @ NL, NL, NL, NL]"
    using file_lines_line [OF l] by (simp add: NL_def)
  finally show ?thesis
    using \<open>l \<noteq> []\<close> by (simp add: blank_lines_at_end_def NL_def)
qed


lemma block_blank_lines:
  assumes ok: "\<forall>w \<in> set (block_writes L ps i a nbr). \<not> isl w"
      and fmt: "\<forall>x. CHR 0x0A \<notin> set (fmt3 L x)"
  shows "blank_lines_at_end (concat (map projr (block_writes L ps i a nbr))) = 3"
proof -
  let ?front = "take 44 (block_writes L ps i a nbr)"
  let ?m = "fmt3 L (imean L (temp_antichain_optimization_nbr_calls a))"
  let ?t = "concat (map projr ?front) @ ''AO mean total nbr calls '' @ ?m"
  have "\<not> isl (piece ''AO mean total nbr calls ''
          (mean3_ints L (temp_antichain_optimization_nbr_calls a)) NL)"
    using ok by (simp add: block_writes_def)
  then have ne: "temp_antichain_optimization_nbr_calls a \<noteq> []"
    by simp
  have "concat (map projr (block_writes L ps i a nbr))
      = concat (map projr (?front @ [piece ''AO mean total nbr calls ''
          (mean3_ints L (temp_antichain_optimization_nbr_calls a)) NL, Inr NL, Inr NL, Inr NL]))"
    using block_writes_last [of L ps i a nbr] by simp
  also have "\<dots> = ?t @ NL @ NL @ NL @ NL"
    using ne by simp
  finally have eq: "concat (map projr (block_writes L ps i a nbr)) = ?t @ NL @ NL @ NL @ NL" .
  have "last ?t \<noteq> CHR 0x0A"
  proof (cases "?m = []")
    case True
    then show ?thesis by simp
  next
    case False
    then have "last ?t = last ?m" by simp
    moreover have "last ?m \<in> set ?m" using False by simp
    ultimately show ?thesis using fmt by metis
  qed
  moreover have "?t \<noteq> []" by simp
  ultimately show ?thesis
    unfolding eq by (rule blank_lines_after_text [rotated])
qed

lemma sweep_value_report:
  assumes "sweep_value L W bt ps n i s = Inr s2"
  shows "\<exists>s1. run_trials L W bt ps i [1 .. n] (s\<lparr>accs := empty_accumulators\<rparr>) = Inr s1
           \<and> (\<forall>w \<in> set (block_writes L ps i (accs s1) (nbr_var s1)). \<not> isl w)
           \<and> report s2
               = report s @ concat (map projr (block_writes L ps i (accs s1) (nbr_var s1)))"
proof -
  from assms obtain s1 where
    r: "run_trials L W bt ps i [1 .. n] (s\<lparr>accs := empty_accumulators\<rparr>) = Inr s1"
    and w: "write_all (block_writes L ps i (accs s1) (nbr_var s1)) (report s1)
          = (None, report s2)"
    by (auto simp: sweep_value_def split: sum.splits prod.splits option.splits)
  from run_trials_lengths [OF r] have "report s1 = report s" by simp
  with write_all_None [OF w] r show ?thesis by auto
qed


lemma trial_nbr: "trial L W bt ps i j s = Inr s' \<Longrightarrow> nbr_var s' \<noteq> None"
  by (auto simp: trial_def Let_def counterexample_step_def antichain_optimization_step_def
      split: sum.splits prod.splits if_splits)

lemma run_trials_nbr:
  "run_trials L W bt ps i js s = Inr s' \<Longrightarrow> js \<noteq> [] \<or> nbr_var s \<noteq> None \<Longrightarrow> nbr_var s' \<noteq> None"
proof (induction js arbitrary: s)
  case Nil
  then show ?case by simp
next
  case (Cons j js)
  then obtain s1 where t: "trial L W bt ps i j s = Inr s1"
    and r: "run_trials L W bt ps i js s1 = Inr s'"
    by (auto split: sum.splits)
  from Cons.IH [OF r] trial_nbr [OF t] show ?case by simp
qed

lemma block_writes_ok:
  "0 \<notin> set (series_lengths a) \<Longrightarrow> \<forall>w \<in> set (block_writes L ps i a (Some n)). \<not> isl w"
  by (simp add: block_writes_def series_lengths_def)

lemma sweep_value_ok:
  assumes r: "run_trials L W bt ps i [1 .. n] (s\<lparr>accs := empty_accumulators\<rparr>) = Inr s1"
      and n: "1 \<le> n"
  shows "sweep_value L W bt ps n i s
     = Inr (s1\<lparr>report := report s
                  @ concat (map projr (block_writes L ps i (accs s1) (nbr_var s1)))\<rparr>)"
proof -
  from run_trials_lengths [OF r]
  have len: "series_lengths (accs s1) = replicate 21 (nat n)" and rep: "report s1 = report s"
    by (simp_all add: series_lengths_empty numeral_eq_Suc)
  from n have "[1 .. n] \<noteq> []" by (simp add: upto_1_Cons)
  with run_trials_nbr [OF r] obtain k where k: "nbr_var s1 = Some k" by auto
  from len n have "0 \<notin> set (series_lengths (accs s1))" by auto
  from write_all_ok [OF block_writes_ok [OF this]] r k rep show ?thesis
    by (simp add: sweep_value_def)
qed

lemma toy_trial_ok:
  "\<exists>s'. trial milli_lib (toy_world fst fst) ''intersection_vertices'' [PBool True] i j s = Inr s'"
proof -
  obtain a where "record_stats milli_lib (toy_stats i) (accs (s\<lparr>nbr_var := Some 2\<rparr>)) = Inr a"
    using toy_record_stats by blast
  then show ?thesis
    by (simp add: trial_def toy_generate_vertices counterexample_step_def
          antichain_optimization_step_def toy_timed_ce toy_timed_ao py_eq_bool_def Let_def)
qed

lemma toy_run_trials_ok:
  "\<exists>s'. run_trials milli_lib (toy_world fst fst) ''intersection_vertices'' [PBool True] i js s
          = Inr s'"
proof (induction js arbitrary: s)
  case Nil
  then show ?case by simp
next
  case (Cons j js)
  obtain s1 where "trial milli_lib (toy_world fst fst) ''intersection_vertices''
                     [PBool True] i j s = Inr s1"
    using toy_trial_ok by blast
  with Cons.IH [of s1] show ?case by simp
qed

lemma toy_sweep_value_ok:
  "1 \<le> n \<Longrightarrow> \<exists>s2. sweep_value milli_lib (toy_world fst fst) ''intersection_vertices''
                      [PBool True] n i s = Inr s2"
  using toy_run_trials_ok sweep_value_ok by (metis (no_types, lifting))

theorem every_series_has_N_entries_witness:
  "\<exists>s1. run_trials milli_lib (toy_world fst fst) ''intersection_vertices'' [PBool True] 3 [1 .. 2]
           (initial_state\<lparr>accs := empty_accumulators\<rparr>) = Inr s1
       \<and> series_lengths (accs s1) = replicate 21 2"
proof -
  obtain s2 where "sweep_value milli_lib (toy_world fst fst) ''intersection_vertices''
                  [PBool True] 2 3 initial_state = Inr s2"
    using toy_sweep_value_ok [of 2] by auto
  from every_series_has_N_entries [OF this] show ?thesis
    by auto
qed

lemma digit_char_is_digit: "d < 10 \<Longrightarrow> is_digit (digit_char d)"
  by (simp add: is_digit_def digit_char_def nth_Cons' )

lemma str_nat_digits: "c \<in> set (str_nat n) \<Longrightarrow> is_digit c"
proof (induction n rule: str_nat.induct)
  case (1 n)
  then show ?case
    by (subst (asm) (2) str_nat.simps) (auto simp: digit_char_is_digit split: if_splits)
qed

lemma pad3_digits: "c \<in> set (pad3 k) \<Longrightarrow> is_digit c"
  by (auto simp: pad3_def intro: digit_char_is_digit)

lemma milli_fmt3_no_newline: "CHR 0x0A \<notin> set (milli_fmt3 n)"
proof
  assume "CHR 0x0A \<in> set (milli_fmt3 n)"
  then have "is_digit (CHR 0x0A)"
    by (auto simp: milli_fmt3_def dest: str_nat_digits pad3_digits split: if_splits)
  then show False by (simp add: is_digit_def)
qed

text \<open>
  C3, as the code has it. After the last labelled line of a block, which ends with its own
  line terminator, the writer writes three more line terminators. So the text that a
  completed swept value appends to the report ends with exactly three blank lines, given
  that the formatting of a number yields no line break.
\<close>

theorem block_ends_with_three_blank_lines:
  assumes "sweep_value L W benchmark_type parameters nbr_points i s = Inr s2"
      and "\<forall>x. CHR 0x0A \<notin> set (fmt3 L x)"
  shows "\<exists>block. report s2 = report s @ block \<and> blank_lines_at_end block = 3"
  using sweep_value_report [OF assms(1)] block_blank_lines [OF _ assms(2)] by blast

theorem block_ends_with_three_blank_lines_witness:
  "\<exists>s2 block. sweep_value milli_lib (toy_world fst fst) ''intersection_vertices''
                  [PBool True] 1 3 initial_state = Inr s2
      \<and> report s2 = report initial_state @ block \<and> blank_lines_at_end block = 3"
proof -
  obtain s2 where s2: "sweep_value milli_lib (toy_world fst fst) ''intersection_vertices''
                  [PBool True] 1 3 initial_state = Inr s2"
    using toy_sweep_value_ok [of 1] by auto
  have "\<forall>x. CHR 0x0A \<notin> set (fmt3 milli_lib x)"
    by (simp add: milli_lib_def milli_fmt3_no_newline)
  from block_ends_with_three_blank_lines [OF s2 this] s2 show ?thesis
    by auto
qed

text \<open>
  The claim as stated says two blank lines. The block of a run with one trial for the
  value 3 does not end with two.
\<close>

theorem two_blank_lines_counterexample:
  "\<not> isl (sweep_value milli_lib (toy_world fst fst) ''intersection_vertices''
            [PBool True] 1 3 initial_state)
   \<and> blank_lines_at_end (report (projr (sweep_value milli_lib (toy_world fst fst)
        ''intersection_vertices'' [PBool True] 1 3 initial_state))) \<noteq> 2"
proof -
  obtain s2 where s2: "sweep_value milli_lib (toy_world fst fst) ''intersection_vertices''
                  [PBool True] 1 3 initial_state = Inr s2"
    using toy_sweep_value_ok [of 1] by auto
  have "\<forall>x. CHR 0x0A \<notin> set (fmt3 milli_lib x)"
    by (simp add: milli_lib_def milli_fmt3_no_newline)
  from sweep_value_report [OF s2] block_blank_lines [OF _ this]
  have "blank_lines_at_end (report s2) = 3"
    by (auto simp: initial_state_def)
  with s2 show ?thesis by simp
qed

section \<open>Properties of the report parser\<close>

subsection \<open>Tokens, lines and the text of integers\<close>

lemma split_on_not_Nil [simp]: "split_on c s \<noteq> []"
  by (induction s) (auto split: list.splits)

lemma split_on_no_sep: "c \<notin> set s \<Longrightarrow> split_on c s = [s]"
  by (induction s) auto

lemma split_on_sep: "split_on c (a @ c # b) = split_on c a @ split_on c b"
  by (induction a) (auto split: list.splits)

lemma join_split_on: "py_join [c] (split_on c s) = s"
proof (induction s)
  case Nil
  then show ?case by simp
next
  case (Cons x s)
  show ?case
  proof (cases "x = c")
    case True
    then show ?thesis
      using Cons by (cases "split_on c s") auto
  next
    case False
    then show ?thesis
      using Cons by (cases "split_on c s"; cases "tl (split_on c s)") auto
  qed
qed

lemma hd_split_on: "hd (split_on c s) = takeWhile (\<lambda>x. x \<noteq> c) s"
  by (induction s) (auto split: list.splits)

lemma py_rstrip_line: "l \<noteq> [] \<Longrightarrow> \<not> is_space (last l) \<Longrightarrow> py_rstrip (l @ NL) = l"
  by (cases l rule: rev_cases) (auto simp: py_rstrip_def NL_def is_space_def)

lemma py_rstrip_NL: "py_rstrip NL = []"
  by (simp add: py_rstrip_def NL_def is_space_def)

lemma digit_val_digit_char: "d < 10 \<Longrightarrow> digit_val (digit_char d) = d"
proof -
  assume "d < 10"
  then have "d = 0 \<or> d = 1 \<or> d = 2 \<or> d = 3 \<or> d = 4 \<or> d = 5 \<or> d = 6 \<or> d = 7
    \<or> d = 8 \<or> d = 9"
    by arith
  then show ?thesis
    by (elim disjE) (simp_all add: digit_val_def digit_char_def)
qed

lemma digits_acc_digits:
  "\<forall>c \<in> set ds. is_digit c \<Longrightarrow>
     digits_acc a ds = Some (foldl (\<lambda>a c. 10 * a + digit_val c) a ds)"
proof (induction a ds rule: digits_acc.induct)
  case (1 a)
  then show ?case by simp
next
  case (2 a c)
  then show ?case by simp
next
  case (3 a c d cs)
  from "3.prems" have "is_digit c" by simp
  then have "c \<noteq> CHR ''_''" by (auto simp: is_digit_def)
  with 3 show ?case by simp
qed

lemma str_nat_not_Nil [simp]: "str_nat n \<noteq> []"
  by (subst str_nat.simps) simp

lemma foldl_str_nat: "foldl (\<lambda>a c. 10 * a + digit_val c) 0 (str_nat n) = n"
proof (induction n rule: str_nat.induct)
  case (1 n)
  show ?case
  proof (cases "n < 10")
    case True
    then show ?thesis
      by (subst str_nat.simps) (simp add: digit_val_digit_char)
  next
    case False
    with 1 show ?thesis
      by (subst str_nat.simps) (simp add: digit_val_digit_char)
  qed
qed

lemma parse_nat_str_nat: "parse_nat (str_nat n) = Some n"
proof -
  obtain d ds where e: "str_nat n = d # ds"
    by (cases "str_nat n") auto
  have dig: "\<forall>c \<in> set (d # ds). is_digit c"
    using str_nat_digits [of _ n] unfolding e by blast
  have "foldl (\<lambda>a c. 10 * a + digit_val c) 0 (d # ds) = n"
    using foldl_str_nat [of n] unfolding e .
  then show ?thesis
    using dig digits_acc_digits [of ds "digit_val d"] by (simp add: parse_nat_def e)
qed

lemma is_digit_not_space: "is_digit c \<Longrightarrow> \<not> is_space c \<and> c \<noteq> CHR ''-'' \<and> c \<noteq> CHR ''+''"
  by (auto simp: is_digit_def is_space_def)

lemma str_nat_no_space: "c \<in> set (str_nat n) \<Longrightarrow> \<not> is_space c"
  using str_nat_digits is_digit_not_space by blast

lemma str_int_chars: "c \<in> set (str_int i) \<Longrightarrow> is_digit c \<or> c = CHR ''-''"
  by (auto simp: str_int_def dest: str_nat_digits split: if_splits)

lemma str_int_no_space: "c \<in> set (str_int i) \<Longrightarrow> \<not> is_space c"
  by (auto dest!: str_int_chars simp: is_digit_not_space) (simp add: is_space_def)

lemma str_int_not_Nil [simp]: "str_int i \<noteq> []"
  by (simp add: str_int_def)

lemma py_strip_plain:
  assumes "s \<noteq> []" and "\<forall>c \<in> set s. \<not> is_space c"
  shows "py_strip s = s"
proof -
  have "py_rstrip s = s"
    using assms by (cases s rule: rev_cases) (simp_all add: py_rstrip_def)
  moreover have "dropWhile is_space s = s"
    using assms by (cases s) simp_all
  ultimately show ?thesis
    by (simp add: py_strip_def)
qed

lemma py_int_str_int: "py_int (str_int i) = Inr i"
proof -
  have strip: "py_strip (str_int i) = str_int i"
    by (rule py_strip_plain) (auto dest: str_int_no_space)
  show ?thesis
  proof (cases "i < 0")
    case True
    then show ?thesis
      unfolding py_int_def strip by (simp add: str_int_def parse_nat_str_nat)
  next
    case False
    obtain d ds where e: "str_nat (nat i) = d # ds"
      by (cases "str_nat (nat i)") auto
    have "is_digit d" using str_nat_digits [of d "nat i"] e by simp
    then have "d \<noteq> CHR ''-''" "d \<noteq> CHR ''+''" using is_digit_not_space by auto
    with False show ?thesis
      unfolding py_int_def strip using parse_nat_str_nat [of "nat i"]
      by (simp add: str_int_def e)
  qed
qed

subsection \<open>The x axis\<close>

lemma and_then_Inr [simp]: "and_then (Inr v) k = k v"
  and and_then_Inl [simp]: "and_then (Inl e) k = Inl e"
  by (simp_all add: and_then_def)

lemma variable_step_other:
  "hd line \<noteq> ''Variable'' \<Longrightarrow> line \<noteq> [] \<Longrightarrow> variable_step bt n line ser = Inr ser"
  by (cases line) (simp_all add: variable_step_def)

lemma ce_times_step_other:
  "hd line \<noteq> ''CE'' \<Longrightarrow> line \<noteq> [] \<Longrightarrow> ce_times_step L n line ser = Inr ser"
  by (cases line) (simp_all add: ce_times_step_def)

lemma ao_times_step_other:
  "hd line \<noteq> ''AO'' \<Longrightarrow> line \<noteq> [] \<Longrightarrow> ao_times_step L n line ser = Inr ser"
  by (cases line) (simp_all add: ao_times_step_def)

lemma mean_ce_step_other:
  "hd line \<noteq> ''Mean'' \<Longrightarrow> line \<noteq> [] \<Longrightarrow> mean_ce_step L n line ser = Inr ser"
  by (cases line) (simp_all add: mean_ce_step_def)

lemma mean_ao_step_other:
  "hd line \<noteq> ''Mean'' \<Longrightarrow> line \<noteq> [] \<Longrightarrow> mean_ao_step L n line ser = Inr ser"
  by (cases line) (simp_all add: mean_ao_step_def)

lemma concat_replicate_single: "concat (replicate n [v]) = replicate n v"
  by (induction n) simp_all

lemma concat_replicate_Nil: "concat (replicate n []) = []"
  by (induction n) simp_all

lemma x_entries_kinds:
  "x_entries ''intersection_vertices'' v = [v]"
  "x_entries ''intersection_objectives'' v = [2 + v * 2]"
  "x_entries ''random'' v = [v]"
  by (simp_all add: x_entries_def)

text \<open>
  C6. A line whose tokens are \<^verbatim>\<open>Variable value used\<close> and a token that
  \<^verbatim>\<open>int\<close> decodes to \<open>v\<close>, whatever the sign of \<open>v\<close>, makes the parser append
  to the x series \<open>nbr_points\<close> copies of \<open>2 + 2 v\<close> for the kind
  \<^verbatim>\<open>intersection_objectives\<close> and of \<open>v\<close> itself for the two other kinds, and
  changes nothing else.
\<close>

theorem x_axis_transform:
  assumes line: "split_on (CHR '' '') (py_rstrip text)
                   = ''Variable'' # ''value'' # ''used'' # token # rest"
      and v: "py_int token = Inr v"
      and kind: "benchmark_type \<in> {''random'', ''intersection_vertices'', ''intersection_objectives''}"
  shows "parse_line L benchmark_type nbr_points text ser
           = Inr (ser\<lparr>x_values := x_values ser @ replicate (nat nbr_points)
                    (if benchmark_type = ''intersection_objectives'' then 2 + 2 * v else v)\<rparr>)"
proof -
  let ?line = "''Variable'' # ''value'' # ''used'' # token # rest"
  have 1: "variable_step benchmark_type nbr_points ?line ser
      = Inr (ser\<lparr>x_values := x_values ser @ replicate (nat nbr_points)
                    (if benchmark_type = ''intersection_objectives'' then 2 + 2 * v else v)\<rparr>)"
    using kind v by (auto simp: variable_step_def x_entries_kinds concat_replicate_single)
  show ?thesis
    unfolding parse_line_def line parse_tokens_def 1
    by (simp add: ce_times_step_other ao_times_step_other mean_ce_step_other mean_ao_step_other)
qed

lemma variable_line_tokens:
  "split_on (CHR '' '') (py_rstrip (''Variable value used '' @ str_int i @ NL))
     = [''Variable'', ''value'', ''used'', str_int i]"
proof -
  have "last (''Variable value used '' @ str_int i) = last (str_int i)"
    by simp
  moreover have "\<not> is_space (last (str_int i))"
    using str_int_no_space [of "last (str_int i)" i] by simp
  ultimately have "py_rstrip ((''Variable value used '' @ str_int i) @ NL)
      = ''Variable value used '' @ str_int i"
    by (intro py_rstrip_line) simp_all
  moreover have "split_on (CHR '' '') (str_int i) = [str_int i]"
    by (rule split_on_no_sep) (auto dest: str_int_no_space simp: is_space_def)
  ultimately show ?thesis by simp
qed

theorem x_axis_transform_witness:
  "parse_line milli_lib ''intersection_objectives'' 2 (''Variable value used '' @ str_int (- 3) @ NL)
      empty_series = Inr (empty_series\<lparr>x_values := [- 4, - 4]\<rparr>)"
  using x_axis_transform [OF variable_line_tokens py_int_str_int,
      where benchmark_type = "''intersection_objectives''" and L = milli_lib
        and nbr_points = 2 and ser = empty_series and v = "- 3"]
  by (simp add: empty_series_def numeral_2_eq_2)

subsection \<open>The lines of times\<close>

lemma bracket_list_not_Nil [simp]: "bracket_list xs \<noteq> []"
  by (simp add: bracket_list_def)

lemma last_bracket_list [simp]: "last (bracket_list xs) = CHR '']''"
  by (simp add: bracket_list_def)

lemma py_rstrip_labelled:
  "p \<noteq> [] \<Longrightarrow> \<not> is_space (last p) \<Longrightarrow> py_rstrip (lbl @ p @ NL) = lbl @ p"
  using py_rstrip_line [of "lbl @ p"] by simp

lemma collect_Inr: "collect (map Inr xs) = Inr xs"
  by (induction xs) simp_all

lemma getitems_list:
  "n \<le> length vs \<Longrightarrow> collect (map (py_getitem (PList vs)) [0 ..< n]) = Inr (take n vs)"
proof -
  assume "n \<le> length vs"
  then have "map (py_getitem (PList vs)) [0 ..< n] = map Inr (take n vs)"
    by (auto simp: list_eq_iff_nth_eq py_getitem_def)
  then show ?thesis
    by (simp add: collect_Inr)
qed

lemma join_space_split: "py_join '' '' (split_on (CHR '' '') s) = s"
  using join_split_on [of "CHR '' ''" s] by simp



lemma parse_ce_tokens:
  assumes "literal_eval L p = Inr (PList vs)" and "nat n \<le> length vs"
  shows "parse_tokens L bt n (''CE'' # ''times'' # ''process'' # split_on (CHR '' '') p) ser
           = Inr (ser\<lparr>y_ce := y_ce ser @ take (nat n) vs\<rparr>)"
proof -
  let ?line = "''CE'' # ''times'' # ''process'' # split_on (CHR '' '') p"
  have 1: "variable_step bt n ?line ser = Inr ser"
    by (simp add: variable_step_other)
  have 2: "ce_times_step L n ?line ser = Inr (ser\<lparr>y_ce := y_ce ser @ take (nat n) vs\<rparr>)"
    using assms by (simp add: ce_times_step_def join_space_split getitems_list)
  show ?thesis
    unfolding parse_tokens_def 1 and_then_Inr 2
    by (simp add: ao_times_step_other mean_ce_step_other mean_ao_step_other)
qed

lemma parse_ao_tokens:
  assumes "literal_eval L p = Inr (PList vs)" and "nat n \<le> length vs"
  shows "parse_tokens L bt n (''AO'' # ''times'' # ''process'' # split_on (CHR '' '') p) ser
           = Inr (ser\<lparr>y_ao := y_ao ser @ take (nat n) vs\<rparr>)"
proof -
  let ?line = "''AO'' # ''times'' # ''process'' # split_on (CHR '' '') p"
  have 1: "variable_step bt n ?line ser = Inr ser"
    by (simp add: variable_step_other)
  have 2: "ce_times_step L n ?line ser = Inr ser"
    by (simp add: ce_times_step_other)
  have 3: "ao_times_step L n ?line ser = Inr (ser\<lparr>y_ao := y_ao ser @ take (nat n) vs\<rparr>)"
    using assms by (simp add: ao_times_step_def join_space_split getitems_list)
  show ?thesis
    unfolding parse_tokens_def 1 2 and_then_Inr 3
    by (simp add: mean_ce_step_other mean_ao_step_other)
qed


lemma milli_lib_fields [simp]:
  "fmt3 milli_lib = milli_fmt3" "repr_float milli_lib = milli_repr"
  "literal_eval milli_lib = milli_literal_eval" "float_of_str milli_lib = milli_parse"
  "feq_int milli_lib = (\<lambda>a n. a = 1000 * n)" "round3 milli_lib = (\<lambda>n. n)"
  by (simp_all add: milli_lib_def)




subsection \<open>Reports that lack a label\<close>

lemma write_all_stop:
  "write_all (map Inr ts @ Inl e # rest) f = (Some e, f @ concat ts)"
  by (induction ts arbitrary: f) simp_all

lemma rows_complete:
  assumes "\<And>i. i < n \<Longrightarrow> \<not> isl (row i)"
  shows "\<forall>w \<in> set (map row [0 ..< n]). \<not> isl w"
  using assms by auto

lemma rows_stop:
  assumes ok: "\<And>i. i < k \<Longrightarrow> \<not> isl (row i)" and bad: "row k = Inl e" and k: "k < n"
  shows "write_all (Inr h # map row [0 ..< n]) f
           = (Some e, f @ h @ concat (map (\<lambda>i. projr (row i)) [0 ..< k]))"
proof -
  have split: "[0 ..< n] = [0 ..< k] @ k # [Suc k ..< n]"
    using k by (metis le_add1 less_imp_add_positive upt_add_eq_append upt_rec zero_le plus_nat.add_0)
  have "map row [0 ..< k] = map Inr (map (\<lambda>i. projr (row i)) [0 ..< k])"
    using ok by (auto simp: list_eq_iff_nth_eq)
  then have "map row [0 ..< n] = map Inr (map (\<lambda>i. projr (row i)) [0 ..< k]) @ Inl e # map row [Suc k ..< n]"
    unfolding split using bad by simp
  then show ?thesis
    using write_all_stop [of "map (\<lambda>i. projr (row i)) [0 ..< k]" e _ "f @ h"] by simp
qed

lemma isl_row3: "isl (row3 L ser i) \<longleftrightarrow> \<not> i < min (length (y_ce ser)) (length (y_ao ser))"
  by (auto simp: row3_def)

lemma isl_row5: "isl (row5 L ser i) \<longleftrightarrow>
   \<not> i < min (min (length (y_ce ser)) (length (y_ao ser)))
               (min (length (mean_y_ce ser)) (length (mean_y_ao ser)))"
  by (auto simp: row5_def)

lemma row3_error: "isl (row3 L ser i) \<Longrightarrow> row3 L ser i = Inl IndexError"
  by (auto simp: row3_def split: if_splits)

lemma row5_error: "isl (row5 L ser i) \<Longrightarrow> row5 L ser i = Inl IndexError"
  by (auto simp: row5_def split: if_splits)

lemma dataset_writes_kinds:
  "dataset_writes L ''intersection_vertices'' ser
     = Inr (''nbr_vertices CE_time AO_time'' @ NL) # map (row3 L ser) [0 ..< length (x_values ser)]"
  "dataset_writes L ''intersection_objectives'' ser
     = Inr (''nbr_objectives CE_time AO_time'' @ NL) # map (row3 L ser) [0 ..< length (x_values ser)]"
  "dataset_writes L ''random'' ser
     = Inr (''nbr_objectives CE_time AO_time mean_CE_time mean_AO_time'' @ NL)
         # map (row5 L ser) [0 ..< length (x_values ser)]"
  by (simp_all add: dataset_writes_def)

lemma dataset_written:
  assumes kind: "benchmark_type \<in> {''random'', ''intersection_vertices'', ''intersection_objectives''}"
  shows "if length (x_values ser) \<le> shortest_y benchmark_type ser
         then write_all (dataset_writes L benchmark_type ser) d
                = (None, d @ concat (map projr (dataset_writes L benchmark_type ser)))
              \<and> length (dataset_writes L benchmark_type ser) = 1 + length (x_values ser)
         else \<exists>d'. write_all (dataset_writes L benchmark_type ser) d = (Some IndexError, d')"
proof (cases "length (x_values ser) \<le> shortest_y benchmark_type ser")
  case True
  then have "\<forall>w \<in> set (dataset_writes L benchmark_type ser). \<not> isl w"
    using kind by (auto simp: dataset_writes_kinds shortest_y_def isl_row3 isl_row5)
  from write_all_ok [OF this] True kind show ?thesis
    by (auto simp: dataset_writes_kinds)
next
  case False
  let ?k = "shortest_y benchmark_type ser"
  from False have k: "?k < length (x_values ser)" by simp
  show ?thesis
  proof (cases "benchmark_type = ''random''")
    case True
    have "row5 L ser ?k = Inl IndexError"
      by (rule row5_error) (simp add: isl_row5 shortest_y_def True)
    from rows_stop [of ?k "row5 L ser", OF _ this k] False True show ?thesis
      by (simp add: dataset_writes_kinds isl_row5 shortest_y_def)
  next
    case nr: False
    have "row3 L ser ?k = Inl IndexError"
      by (rule row3_error) (simp add: isl_row3 shortest_y_def nr)
    from rows_stop [of ?k "row3 L ser", OF _ this k] False nr kind show ?thesis
      by (auto simp add: dataset_writes_kinds isl_row3 shortest_y_def)
  qed
qed

text \<open>
  C5, as the code has it. While it scans, the parser does not check that the labels it
  expects are there. Once the scan of a report has succeeded, \<^verbatim>\<open>parse_results\<close>
  completes without an exception exactly when none of the series that a row reads is
  shorter than the x series: then it writes the header and one row for every entry of the
  x series, so a report that lacks \<^verbatim>\<open>Variable value used\<close> lines silently gives fewer
  rows. When one of the other series is shorter than the x series, as for a report that
  lacks a \<^verbatim>\<open>CE times process\<close> line, writing the rows raises \<open>IndexError\<close>.
\<close>

theorem parser_completes_iff_no_series_is_short:
  assumes scan: "scan L benchmark_type nbr_points (read_lines file_content) empty_series = Inr ser"
      and kind: "benchmark_type \<in> {''random'', ''intersection_vertices'', ''intersection_objectives''}"
  shows "if length (x_values ser) \<le> shortest_y benchmark_type ser
         then parse_results L file_content benchmark_type nbr_points dataset
                = Inr (dataset @ concat (map projr (dataset_writes L benchmark_type ser)))
              \<and> length (dataset_writes L benchmark_type ser) = 1 + length (x_values ser)
         else \<exists>d. parse_results L file_content benchmark_type nbr_points dataset
                = Inl (IndexError, d)"
  using dataset_written [OF kind, of ser L dataset]
  by (auto simp: parse_results_def scan split: if_splits)

lemma short_report_scan:
  "scan milli_lib ''intersection_vertices'' 1
     (read_lines (''CE times process [0.008]'' @ NL @ ''AO times process [0.006]'' @ NL))
     empty_series
   = Inr \<lparr>x_values = [], y_ce = [PFloat 8], y_ao = [PFloat 6], mean_y_ce = [], mean_y_ao = []\<rparr>"
  by code_simp

theorem parser_completes_iff_no_series_is_short_witness:
  "parse_results milli_lib
     (''CE times process [0.008]'' @ NL @ ''AO times process [0.006]'' @ NL)
     ''intersection_vertices'' 1 [] = Inr (''nbr_vertices CE_time AO_time'' @ NL)"
  using parser_completes_iff_no_series_is_short [OF short_report_scan, of "[]"]
  by (simp add: shortest_y_def dataset_writes_kinds)

text \<open>
  The claim as stated says that the parser still completes. For a report that holds the
  line \<^verbatim>\<open>Variable value used 3\<close> and lacks the two lines of times, the header is
  written and the first row raises \<open>IndexError\<close>.
\<close>

theorem missing_times_line_counterexample:
  "parse_results milli_lib (''Variable value used 3'' @ NL) ''intersection_vertices'' 1 []
     = Inl (IndexError, ''nbr_vertices CE_time AO_time'' @ NL)"
  by code_simp

section \<open>Properties of the table generator\<close>

















section \<open>From the sweep to the dataset\<close>

subsection \<open>The lines of a block, read back\<close>

lemma block_text_fields:
  assumes "0 \<notin> set (series_lengths a)"
  shows "concat (map projr (block_writes L ps i a (Some n)))
         = concat (map labelled (block_fields L ps i a n)) @ NL @ NL @ NL"
  using assms
  by (simp add: block_writes_def block_fields_def labelled_def series_lengths_def)

lemma universal_newlines_append:
  "CHR 0x0D \<notin> set a \<Longrightarrow> universal_newlines (a @ b) = a @ universal_newlines b"
proof (induction a)
  case Nil
  then show ?case by simp
next
  case (Cons c a)
  then show ?case by (cases "a @ b") auto
qed

lemma read_lines_line:
  assumes "line_text l"
  shows "read_lines (l @ NL @ rest) = (l @ NL) # read_lines rest"
proof -
  from assms have "CHR 0x0D \<notin> set (l @ NL)" "CHR 0x0A \<notin> set l"
    by (simp_all add: line_text_def NL_def)
  then show ?thesis
    using universal_newlines_append [of "l @ NL" rest] file_lines_line [of l]
    by (simp add: read_lines_def NL_def)
qed

lemma read_lines_fields:
  "\<forall>f \<in> set fs. line_text (fst f @ '' '' @ snd f) \<Longrightarrow>
     read_lines (concat (map labelled fs) @ rest) = map labelled fs @ read_lines rest"
proof (induction fs)
  case Nil
  then show ?case by simp
next
  case (Cons f fs)
  then have "line_text (fst f @ '' '' @ snd f)" by simp
  from read_lines_line [OF this, of "concat (map labelled fs) @ rest"]
  have "read_lines (labelled f @ concat (map labelled fs) @ rest)
      = labelled f # read_lines (concat (map labelled fs) @ rest)"
    by (simp add: labelled_def)
  with Cons show ?case
    by simp
qed

lemma line_text_empty: "line_text []"
  by (simp add: line_text_def)

lemma read_lines_blank: "read_lines (NL @ rest) = NL # read_lines rest"
  using read_lines_line [OF line_text_empty] by simp

lemma parse_labelled:
  assumes "p \<noteq> []" and "\<not> is_space (last p)"
  shows "parse_line L bt n (labelled (l, p)) ser
           = parse_tokens L bt n (split_on (CHR '' '') l @ split_on (CHR '' '') p) ser"
proof -
  have "py_rstrip ((l @ '' '') @ p @ NL) = (l @ '' '') @ p"
    by (rule py_rstrip_labelled) fact+
  then show ?thesis
    by (simp add: parse_line_def labelled_def split_on_sep)
qed

lemma parse_blank: "parse_line L bt n NL ser = parse_tokens L bt n [[]] ser"
  by (simp add: parse_line_def py_rstrip_NL)

lemma parse_tokens_none:
  assumes "bt \<noteq> ''random''"
      and "label_is line 0 [''Variable'', ''value'', ''used''] = Inr False"
      and "label_is line 0 [''CE'', ''times'', ''process''] = Inr False"
      and "label_is line 0 [''AO'', ''times'', ''process''] = Inr False"
  shows "parse_tokens L bt n line ser = Inr ser"
  using assms
  by (simp add: parse_tokens_def variable_step_def ce_times_step_def ao_times_step_def)

lemma parse_variable_tokens:
  "parse_tokens L bt n [''Variable'', ''value'', ''used'', str_int i] ser
     = Inr (ser\<lparr>x_values := x_values ser @ concat (replicate (nat n) (x_entries bt i))\<rparr>)"
proof -
  let ?line = "[''Variable'', ''value'', ''used'', str_int i]"
  have 1: "variable_step bt n ?line ser
     = Inr (ser\<lparr>x_values := x_values ser @ concat (replicate (nat n) (x_entries bt i))\<rparr>)"
    by (simp add: variable_step_def py_int_str_int)
  show ?thesis
    unfolding parse_tokens_def 1
    by (simp add: ce_times_step_other ao_times_step_other mean_ce_step_other mean_ao_step_other)
qed

lemma split_on_str_int: "split_on (CHR '' '') (str_int i) = [str_int i]"
  by (rule split_on_no_sep) (auto dest: str_int_no_space simp: is_space_def)

lemma nth_0_split_on: "split_on c s ! 0 = takeWhile (\<lambda>x. x \<noteq> c) s"
  using hd_split_on [of c s] by (simp add: hd_conv_nth)

lemma last_str_int_not_space: "\<not> is_space (last (str_int i))"
  using str_int_no_space [of "last (str_int i)" i] by simp

lemma list_payload [simp]:
  "str_int_list xs \<noteq> []" "last (str_int_list xs) = CHR '']''"
  "str_float_list L ys \<noteq> []" "last (str_float_list L ys) = CHR '']''"
  "py_repr L (PList vs) \<noteq> []" "last (py_repr L (PList vs)) = CHR '']''"
  by (simp_all add: str_int_list_def str_float_list_def)

lemma first_token_of_list [simp]:
  "split_on (CHR '' '') (str_float_list L ys) ! 0 \<noteq> ''process''"
proof -
  have "takeWhile (\<lambda>x. x \<noteq> CHR '' '') (str_float_list L ys) \<noteq> ''process''"
    by (simp add: str_float_list_def bracket_list_def)
  then show ?thesis
    by (simp only: nth_0_split_on not_False_eq_True)
qed

lemma bracket_not_space [simp]: "\<not> is_space (CHR '']'')"
  by (simp add: is_space_def)

lemma plain_payload: "plain s \<Longrightarrow> s \<noteq> [] \<and> \<not> is_space (last s)"
  by (simp add: plain_def)

lemma scan_block_lines:
  assumes bt: "bt \<noteq> ''random''"
      and lib: "\<forall>x. plain (fmt3 L x)"
      and ce: "literal_eval L (str_float_list L (counterexample_times_process a))
                 = Inr (PList (map PFloat (counterexample_times_process a)))"
      and ao: "literal_eval L (str_float_list L (antichain_optimization_times_process a))
                 = Inr (PList (map PFloat (antichain_optimization_times_process a)))"
      and len: "length (counterexample_times_process a) = nat N"
               "length (antichain_optimization_times_process a) = nat N"
  shows "scan L bt N (map labelled (block_fields L ps i a n) @ NL # NL # NL # rest) ser
         = scan L bt N rest
             (ser\<lparr>x_values := x_values ser @ concat (replicate (nat N) (x_entries bt i)),
                  y_ce := y_ce ser @ map PFloat (counterexample_times_process a),
                  y_ao := y_ao ser @ map PFloat (antichain_optimization_times_process a)\<rparr>)"
proof -
  have ce_line: "parse_tokens L bt N (''CE'' # ''times'' # ''process''
        # split_on (CHR '' '') (str_float_list L (counterexample_times_process a))) s
      = Inr (s\<lparr>y_ce := y_ce s @ map PFloat (counterexample_times_process a)\<rparr>)" for s
    using parse_ce_tokens [OF ce, of N bt s] len by simp
  have ao_line: "parse_tokens L bt N (''AO'' # ''times'' # ''process''
        # split_on (CHR '' '') (str_float_list L (antichain_optimization_times_process a))) s
      = Inr (s\<lparr>y_ao := y_ao s @ map PFloat (antichain_optimization_times_process a)\<rparr>)" for s
    using parse_ao_tokens [OF ao, of N bt s] len by simp
  have fmt: "fmt3 L x \<noteq> []" "\<not> is_space (last (fmt3 L x))" for x
    using lib plain_payload by blast+
  show ?thesis
    by (simp add: block_fields_def parse_labelled parse_blank parse_tokens_none [OF bt]
          parse_variable_tokens split_on_str_int last_str_int_not_space ce_line ao_line fmt)
qed

lemma line_text_simps [simp]:
  "line_text []" "line_text (c # s) \<longleftrightarrow> c \<noteq> CHR 0x0A \<and> c \<noteq> CHR 0x0D \<and> line_text s"
  "line_text (s @ t) \<longleftrightarrow> line_text s \<and> line_text t"
  by (auto simp: line_text_def)

lemma plain_line_text: "plain s \<Longrightarrow> line_text s"
  by (auto simp: plain_def line_text_def is_space_def)

lemma line_text_join:
  "line_text sep \<Longrightarrow> \<forall>x \<in> set xs. line_text x \<Longrightarrow> line_text (py_join sep xs)"
  by (induction sep xs rule: py_join.induct) simp_all

lemma line_text_bracket_list: "\<forall>x \<in> set xs. line_text x \<Longrightarrow> line_text (bracket_list xs)"
  by (simp add: bracket_list_def line_text_join)

lemma line_text_str_int [simp]: "line_text (str_int i)"
  using str_int_no_space [of _ i] by (auto simp: line_text_def is_space_def)

lemma line_text_str_int_list [simp]: "line_text (str_int_list xs)"
  by (simp add: str_int_list_def line_text_bracket_list)

lemma line_text_str_float_list:
  "\<forall>x. plain (repr_float L x) \<Longrightarrow> line_text (str_float_list L xs)"
  by (simp add: str_float_list_def line_text_bracket_list plain_line_text)

lemma block_fields_line_text:
  assumes "\<forall>x. plain (fmt3 L x)" and "\<forall>x. plain (repr_float L x)"
      and "line_text (py_repr L (PList ps))"
  shows "\<forall>f \<in> set (block_fields L ps i a n). line_text (fst f @ '' '' @ snd f)"
  using assms(3) line_text_str_float_list [OF assms(2)] plain_line_text [OF assms(1) [rule_format]]
  by (simp add: block_fields_def)

subsection \<open>The descending sweep, end to end\<close>

lemma sweep_value_block:
  assumes "sweep_value L W bt ps N i s = Inr s2"
  shows "\<exists>a n. series_lengths a = replicate 21 (nat N) \<and> 0 < nat N
           \<and> report s2 = report s @ concat (map labelled (block_fields L ps i a n)) @ NL @ NL @ NL"
proof -
  from sweep_value_report [OF assms] obtain s1 where
    r: "run_trials L W bt ps i [1 .. N] (s\<lparr>accs := empty_accumulators\<rparr>) = Inr s1"
    and ok: "\<forall>w \<in> set (block_writes L ps i (accs s1) (nbr_var s1)). \<not> isl w"
    and rep: "report s2 = report s @ concat (map projr (block_writes L ps i (accs s1) (nbr_var s1)))"
    by blast
  from run_trials_lengths [OF r]
  have len: "series_lengths (accs s1) = replicate 21 (nat N)"
    by (simp add: series_lengths_empty numeral_eq_Suc)
  from ok have "\<not> isl (piece ''Number of objectives ''
       (case nbr_var s1 of None \<Rightarrow> Inl UnboundLocalError | Some n \<Rightarrow> Inr (str_int n)) NL)"
    and "\<not> isl (piece ''Mean antichain size '' (mean3_ints L (temp_antichain_sizes (accs s1))) NL)"
    by (simp_all add: block_writes_def)
  then obtain n where n: "nbr_var s1 = Some n" and ne: "temp_antichain_sizes (accs s1) \<noteq> []"
    by (cases "nbr_var s1") auto
  from len have "length (temp_antichain_sizes (accs s1)) = nat N"
    by (simp add: series_lengths_def numeral_eq_Suc)
  with ne have pos: "0 < nat N"
    by (cases "temp_antichain_sizes (accs s1)") auto
  with len have "0 \<notin> set (series_lengths (accs s1))" by simp
  from block_text_fields [OF this] rep n len pos show ?thesis
    by auto
qed


lemma singleton_list: "length xs = Suc 0 \<Longrightarrow> \<exists>x. xs = [x]"
  by (cases xs) auto

lemma times_of_one_trial:
  assumes "series_lengths a = replicate 21 (Suc 0)"
  shows "\<exists>t u. counterexample_times_process a = [t] \<and> antichain_optimization_times_process a = [u]"
proof -
  from assms have "length (counterexample_times_process a) = Suc 0"
    "length (antichain_optimization_times_process a) = Suc 0"
    by (simp_all add: series_lengths_def numeral_eq_Suc)
  then show ?thesis
    using singleton_list by blast
qed

lemma read_lines_block:
  assumes "\<forall>f \<in> set fs. line_text (fst f @ '' '' @ snd f)"
  shows "read_lines (concat (map labelled fs) @ NL @ NL @ NL @ rest)
           = map labelled fs @ NL # NL # NL # read_lines rest"
  using read_lines_fields [OF assms] by (simp add: read_lines_blank)

lemma read_lines_Nil [simp]: "read_lines [] = []"
  by (simp add: read_lines_def)

lemma str_int_3_2: "str_int 3 = ''3''" "str_int 2 = ''2''"
  by (simp_all add: str_int_def str_nat.simps digit_char_def)

text \<open>
  C9. The range \<^verbatim>\<open>range(3, 1, -1)\<close> is the list 3, 2. Take a run of the sweep of kind
  \<^verbatim>\<open>intersection_vertices\<close> over this range with one trial per value that completes,
  on a report file that was empty before. Then the parser, run on the report with an
  empty dataset file, writes the header and exactly two rows, whose first column is 3 in
  the first row and 2 in the second; the other columns are the texts of the two process
  times of the value. The library is assumed to format numbers without whitespace, to
  give the parameters a text without line breaks, and to read the text of a one-element
  list of floats back as this list.
\<close>

theorem descending_sweep_end_to_end:
  assumes run: "run_benchmark L W ''intersection_vertices'' parameters 1 3 1 (- 1) s = Inr s'"
      and fresh: "report s = []"
      and lib: "\<forall>x. plain (fmt3 L x)" "\<forall>x. plain (repr_float L x)"
      and params: "line_text (py_repr L (PList parameters))"
      and round_trip: "\<forall>t. literal_eval L (str_float_list L [t]) = Inr (PList [PFloat t])"
  shows "py_range 3 1 (- 1) = Inr [3, 2]
       \<and> (\<exists>t1 t2 t3 t4.
            parse_results L (report s') ''intersection_vertices'' 1 []
              = Inr (''nbr_vertices CE_time AO_time'' @ NL
                     @ ''3 '' @ repr_float L t1 @ '' '' @ repr_float L t2 @ NL
                     @ ''2 '' @ repr_float L t3 @ '' '' @ repr_float L t4 @ NL))"
proof -
  let ?bt = "''intersection_vertices''"
  from run obtain sA where
    A: "sweep_value L W ?bt parameters 1 3 s = Inr sA"
    and B: "sweep_value L W ?bt parameters 1 2 sA = Inr s'"
    by (auto simp: run_benchmark_def py_range_3_1 split: sum.splits)
  from sweep_value_block [OF A] fresh obtain a3 n3 where
    l3: "series_lengths a3 = replicate 21 (Suc 0)"
    and r3: "report sA = concat (map labelled (block_fields L parameters 3 a3 n3)) @ NL @ NL @ NL"
    by auto
  from sweep_value_block [OF B] obtain a2 n2 where
    l2: "series_lengths a2 = replicate 21 (Suc 0)"
    and r2: "report s' = report sA
               @ concat (map labelled (block_fields L parameters 2 a2 n2)) @ NL @ NL @ NL"
    by auto
  from times_of_one_trial [OF l3] obtain t1 t2 where
    t3: "counterexample_times_process a3 = [t1]" "antichain_optimization_times_process a3 = [t2]"
    by blast
  from times_of_one_trial [OF l2] obtain t3 t4 where
    t2: "counterexample_times_process a2 = [t3]" "antichain_optimization_times_process a2 = [t4]"
    by blast
  note lt = block_fields_line_text [OF lib params]
  have lines: "read_lines (report s')
      = map labelled (block_fields L parameters 3 a3 n3) @ NL # NL # NL
        # map labelled (block_fields L parameters 2 a2 n2) @ NL # NL # NL # []"
    unfolding r2 r3
    using read_lines_block [OF lt, of 3 a3 n3
            "concat (map labelled (block_fields L parameters 2 a2 n2)) @ NL @ NL @ NL"]
          read_lines_block [OF lt, of 2 a2 n2 "[]"]
    by simp
  have nr: "?bt \<noteq> ''random''" by simp
  have scan: "scan L ?bt 1 (read_lines (report s')) empty_series
      = Inr \<lparr>x_values = [3, 2], y_ce = [PFloat t1, PFloat t3], y_ao = [PFloat t2, PFloat t4],
             mean_y_ce = [], mean_y_ao = []\<rparr>"
    unfolding lines
    by (simp add: scan_block_lines [OF nr lib(1)] t3 t2 round_trip x_entries_kinds
          empty_series_def)
  have "parse_results L (report s') ?bt 1 []
      = Inr (''nbr_vertices CE_time AO_time'' @ NL
             @ ''3 '' @ repr_float L t1 @ '' '' @ repr_float L t2 @ NL
             @ ''2 '' @ repr_float L t3 @ '' '' @ repr_float L t4 @ NL)"
    by (simp add: parse_results_def scan dataset_writes_kinds row3_def
          py_str_def upt_rec numeral_2_eq_2 str_int_3_2)
  with py_range_3_1 show ?thesis
    by blast
qed

end
